theory Spec2Isabelle
  imports Main
begin

section \<open>JavaScript values, thrown values and URL encoding\<close>

text \<open>
  The handler of \<^verbatim>\<open>src/server/routes/callback.js\<close> is an asynchronous function that
  talks to collaborators supplied by the deployment (the persistence adapter, the policy
  callbacks, the token codec, the event handlers) and ends with exactly one terminal action.
  A value that can be thrown or handed to \<^verbatim>\<open>redirect\<close> is a \<open>jsvalue\<close>, of which
  only the shapes the handler can tell apart are kept.

  A string is the byte string of the JavaScript string in (generalised) UTF-8: a code point
  is its UTF-8 bytes, a surrogate pair is the four bytes of the code point it stands for,
  and a surrogate code unit that is not part of a pair is the three bytes
  \<^verbatim>\<open>ED A0..BF 80..BF\<close> of its own value, which well-formed UTF-8 never holds.
\<close>

datatype jsvalue =
    JUndefined
  | JNull
  | JBool bool
  | JString string
  | JObject "string option"  \<comment> \<open>an object that is not an Error, with its \<^verbatim>\<open>name\<close> property\<close>

datatype thrown =
    ErrorObj string string   \<comment> \<open>\<^verbatim>\<open>instanceof Error\<close>: its name and its message\<close>
  | NonError jsvalue         \<comment> \<open>any other thrown value\<close>

text \<open>\<^verbatim>\<open>error.name\<close>: reading a property of \<^verbatim>\<open>null\<close> or \<^verbatim>\<open>undefined\<close> is a TypeError.\<close>

fun error_name :: "thrown \<Rightarrow> thrown + string option" where
  "error_name (ErrorObj n msg) = Inr (Some n)"
| "error_name (NonError JUndefined) =
     Inl (ErrorObj ''TypeError'' ''Cannot read properties of undefined'')"
| "error_name (NonError JNull) =
     Inl (ErrorObj ''TypeError'' ''Cannot read properties of null'')"
| "error_name (NonError (JBool b)) = Inr None"
| "error_name (NonError (JString s)) = Inr None"
| "error_name (NonError (JObject n)) = Inr n"

text \<open>\<^verbatim>\<open>Error.prototype.toString\<close>, which the string conversion of an Error object runs.\<close>

definition error_toString :: "string \<Rightarrow> string \<Rightarrow> string" where
  "error_toString n msg =
     (if n = [] then msg else if msg = [] then n else n @ '': '' @ msg)"

text \<open>
  \<^verbatim>\<open>encodeURIComponent\<close>: the unreserved characters stay, every other byte of the UTF-8
  form becomes \<^verbatim>\<open>%XX\<close> in upper-case hexadecimal. A string that holds a lone surrogate
  has no UTF-8 form, and the function throws a URIError.
\<close>

definition uri_unreserved :: "char \<Rightarrow> bool" where
  "uri_unreserved c =
     (c \<in> set (''ABCDEFGHIJKLMNOPQRSTUVWXYZabcdefghijklmnopqrstuvwxyz0123456789-_.!~*()''
                @ [CHR 0x27]))"

definition hex_digit :: "nat \<Rightarrow> char" where
  "hex_digit n = ''0123456789ABCDEF'' ! (n mod 16)"

definition percent_encode :: "char \<Rightarrow> string" where
  "percent_encode c =
     [CHR ''%'', hex_digit ((of_char c :: nat) div 16), hex_digit ((of_char c :: nat) mod 16)]"

definition uri_escape :: "string \<Rightarrow> string" where
  "uri_escape s = concat (map (\<lambda>c. if uri_unreserved c then [c] else percent_encode c) s)"

text \<open>The lead byte \<^verbatim>\<open>ED\<close> followed by a byte from \<^verbatim>\<open>A0\<close> to \<^verbatim>\<open>BF\<close>: a lone surrogate.\<close>

fun lone_surrogate :: "string \<Rightarrow> bool" where
  "lone_surrogate (a # b # s) =
     (((of_char a :: nat) = 0xED \<and> 0xA0 \<le> (of_char b :: nat) \<and> (of_char b :: nat) \<le> 0xBF)
      \<or> lone_surrogate (b # s))"
| "lone_surrogate s = False"

definition encodeURIComponent :: "string \<Rightarrow> thrown + string" where
  "encodeURIComponent s =
     (if lone_surrogate s then Inl (ErrorObj ''URIError'' ''URI malformed'')
      else Inr (uri_escape s))"

text \<open>Truthiness of an optional string, and \<^verbatim>\<open>a || b\<close> on it: the empty string is falsy.\<close>

fun truthy :: "string option \<Rightarrow> bool" where
  "truthy None = False"
| "truthy (Some s) = (s \<noteq> [])"

fun js_or :: "string option \<Rightarrow> string \<Rightarrow> string" where
  "js_or None d = d"
| "js_or (Some s) d = (if s \<noteq> [] then s else d)"


section \<open>Data model\<close>

text \<open>A profile or a user: the handler reads \<^verbatim>\<open>name\<close>, \<^verbatim>\<open>email\<close> and \<^verbatim>\<open>image\<close> only.\<close>

record user =
  u_id :: "string option"
  u_name :: "string option"
  u_email :: "string option"
  u_image :: "string option"

record account =
  a_provider :: "string option"
  a_id :: "string option"
  a_type :: "string option"
  a_providerAccountId :: "string option"

record session_record =
  s_sessionToken :: string
  s_expires :: "string option"

text \<open>What \<^verbatim>\<open>callbackHandler\<close> resolves to: \<^verbatim>\<open>{ user, session, isNewUser }\<close>.\<close>

record materialized =
  m_user :: user
  m_session :: "session_record option"
  m_isNewUser :: bool

text \<open>The claim set handed to \<^verbatim>\<open>callbacks.jwt\<close> and to \<^verbatim>\<open>jwt.encode\<close>.\<close>

record claims =
  c_name :: "string option"
  c_email :: "string option"
  c_picture :: "string option"
  c_custom :: string

text \<open>
  The provider payload: the third argument of \<^verbatim>\<open>callbacks.signIn\<close> and the fourth of
  \<^verbatim>\<open>callbacks.jwt\<close>.
\<close>

datatype payload =
    RawOAuthProfile string
  | EmailOnly "string option"   \<comment> \<open>\<^verbatim>\<open>{ email }\<close>\<close>
  | UserObject user
  | Credentials string          \<comment> \<open>\<^verbatim>\<open>req.body\<close>\<close>

text \<open>The message of the sign-in event; \<open>None\<close> is a message without the field.\<close>

record message =
  msg_user :: user
  msg_account :: account
  msg_isNewUser :: "bool option"

record provider =
  p_id :: string
  p_type :: string
  p_authorize :: "(string \<Rightarrow> thrown + user option) option"

record request =
  req_cookies :: "(string \<rightharpoonup> string) option"
  req_query_token :: "string option"
  req_query_email :: "string option"
  req_method :: string
  req_body :: string

text \<open>
  The persistence adapter, over a store \<open>'db\<close> of its own. Reads return a value or throw;
  \<^verbatim>\<open>deleteVerificationRequest\<close> returns the store it leaves behind.
\<close>

record 'db adapter =
  getAdapter :: "thrown option"
  getUserByProviderAccountId :: "'db \<Rightarrow> string option \<Rightarrow> string option \<Rightarrow> thrown + user option"
  getVerificationRequest ::
    "'db \<Rightarrow> string option \<Rightarrow> string option \<Rightarrow> string \<Rightarrow> provider \<Rightarrow> thrown + string option"
  deleteVerificationRequest ::
    "'db \<Rightarrow> string option \<Rightarrow> string option \<Rightarrow> string \<Rightarrow> provider \<Rightarrow> thrown option \<times> 'db"
  getUserByEmail :: "'db \<Rightarrow> string option \<Rightarrow> thrown + user option"

text \<open>The fields of \<^verbatim>\<open>options\<close> the handler destructures (lines 9 to 28).\<close>

record 'db options =
  providerName :: string
  providers :: "string \<rightharpoonup> provider"
  adapter :: "'db adapter option"
  baseUrl :: string
  basePath :: string
  secret :: string
  cookies_sessionToken_name :: string
  cookies_sessionToken_options :: string
  callbackUrl :: "string option"
  pages_newUser :: "string option"
  jwt_encode :: "claims \<Rightarrow> thrown + string"
  events_signIn :: "message \<Rightarrow> thrown option"
  callbacks_signIn :: "user \<Rightarrow> account \<Rightarrow> payload \<Rightarrow> thrown + jsvalue"
  callbacks_jwt :: "claims \<Rightarrow> user \<Rightarrow> account \<Rightarrow> payload \<Rightarrow> bool \<Rightarrow> thrown + claims"
  csrfToken :: string
  session_jwt :: bool
  session_maxAge :: int

text \<open>
  What \<^verbatim>\<open>oAuthCallback\<close> passes to its continuation \<^verbatim>\<open>(error, profile, account, OAuthProfile)\<close>:
  an error, no profile, or a profile with its account and the raw provider profile.
\<close>

datatype oauth_response =
    OAuthError
  | OAuthNoProfile
  | OAuthProfile user account string

text \<open>The imported modules whose behaviour is not fixed by the handler, and the clock.\<close>

record 'db modules =
  oAuthCallback :: "request \<Rightarrow> provider \<Rightarrow> string \<Rightarrow> thrown + oauth_response"
  callbackHandler ::
    "'db \<Rightarrow> string option \<Rightarrow> user \<Rightarrow> account \<Rightarrow> 'db options \<Rightarrow> (thrown + materialized) \<times> 'db"
  clock_now :: int

datatype expiry = ExpiresAt int | ExpiresStored string | ExpiresNull

text \<open>
  The calls the handler makes, in order: each with its arguments and with what it returned
  or threw (\<open>Inl\<close> and \<open>Some\<close> are faults).
\<close>

datatype effect =
    LogError string
  | LogDebug string
  | Call_oAuthCallback "thrown + oauth_response"
  | Call_getAdapter "thrown option"
  | Call_getUserByProviderAccountId "string option" "string option" "thrown + user option"
  | Call_getVerificationRequest "string option" "string option" "thrown + string option"
  | Call_deleteVerificationRequest "string option" "string option" "thrown option"
  | Call_getUserByEmail "string option" "thrown + user option"
  | Call_authorize string "thrown + user option"
  | Call_signIn user account payload "thrown + jsvalue"
  | Call_callbackHandler "string option" user account "thrown + materialized"
  | Call_jwt claims user account payload bool "thrown + claims"
  | Call_jwt_encode claims "thrown + string"
  | Cookie_set string string expiry string
  | Dispatch_signIn message

text \<open>
  The terminal action: a redirect (to a URL or to a thrown value used as one), the direct
  rejection \<^verbatim>\<open>res.status(500).end(...)\<close>, or a fault that nothing in the handler catches.
\<close>

datatype outcome =
    Redirect jsvalue
  | Rejected nat string
  | Unhandled thrown

record 'db result =
  outcome :: outcome
  effects :: "effect list"
  db_after :: "'db"

text \<open>
  A block of statements yields the calls it made, the store it left and either the terminal
  action it returned or the fault it threw to the enclosing \<^verbatim>\<open>catch\<close>.
\<close>

type_synonym 'db block = "effect list \<times> 'db \<times> (thrown + outcome)"

text \<open>\<open>call e rest\<close>: the call \<open>e\<close> is made, then \<open>rest\<close> runs.\<close>

fun call :: "effect \<Rightarrow> effect list \<times> 'a \<Rightarrow> effect list \<times> 'a" where
  "call e (tr, x) = (e # tr, x)"


section \<open>Collaborators fixed by the handler\<close>

text \<open>
  Modelled from the spec: \<^verbatim>\<open>dispatchEvent\<close> (\<^verbatim>\<open>src/server/lib/dispatch-event\<close>) is not
  among the sources. The specification says of it that it fires a best-effort notification
  and that a failure of the handler is swallowed and logged: it calls the event handler with
  the message, and when the handler throws it logs the fault and returns normally.
\<close>

definition dispatchEvent :: "(message \<Rightarrow> thrown option) \<Rightarrow> message \<Rightarrow> effect list" where
  "dispatchEvent fn msg =
     (case fn msg of
        None \<Rightarrow> [Dispatch_signIn msg]
      | Some e \<Rightarrow> [Dispatch_signIn msg, LogError ''DISPATCH_EVENT_ERROR''])"

text \<open>The URL of the error page with an error code: \<^verbatim>\<open>${baseUrl}${basePath}/error?error=...\<close>.\<close>

definition error_page :: "'db options \<Rightarrow> string \<Rightarrow> jsvalue" where
  "error_page opts code = JString (baseUrl opts @ basePath opts @ ''/error?error='' @ code)"

text \<open>
  The handler of a fault thrown by \<^verbatim>\<open>callbacks.signIn\<close> (lines 75 to 81, 165 to 171 and
  255 to 261) and by \<^verbatim>\<open>provider.authorize\<close> (lines 239 to 245). It returns a redirect, or
  it throws in its turn: the URIError of \<^verbatim>\<open>encodeURIComponent(error)\<close> leaves the
  \<^verbatim>\<open>catch\<close> block for whatever encloses it.
\<close>

fun fault_redirect :: "'db options \<Rightarrow> thrown \<Rightarrow> thrown + outcome" where
  "fault_redirect opts (ErrorObj n msg) =
     (case encodeURIComponent (error_toString n msg) of
        Inl uriError \<Rightarrow> Inl uriError
      | Inr encoded \<Rightarrow> Inr (Redirect (error_page opts encoded)))"
| "fault_redirect opts (NonError v) = Inr (Redirect v)"

text \<open>
  \<^verbatim>\<open>toISOString\<close> of the expiry date throws a RangeError when the time value is outside the
  range of a Date.
\<close>

definition cookie_expires :: "int \<Rightarrow> int \<Rightarrow> thrown + expiry" where
  "cookie_expires now maxAge =
     (let t = now + maxAge * 1000 in
      if \<bar>t\<bar> \<le> 8640000000000000 then Inr (ExpiresAt t)
      else Inl (ErrorObj ''RangeError'' ''Invalid time value''))"

text \<open>
  The stateless session (lines 87 to 101, 177 to 191 and 263 to 277): shape the claims, sign
  them, set the cookie. The result is the calls made and the fault that ended them, if any.
\<close>

definition jwt_session ::
  "'db modules \<Rightarrow> 'db options \<Rightarrow> user \<Rightarrow> account \<Rightarrow> payload \<Rightarrow> bool \<Rightarrow> effect list \<times> thrown option"
where
  "jwt_session mods opts usr acct pl isNewUser =
     (let defaultJwtPayload =
            \<lparr>c_name = u_name usr, c_email = u_email usr, c_picture = u_image usr, c_custom = []\<rparr>;
          shaped = callbacks_jwt opts defaultJwtPayload usr acct pl isNewUser
      in call (Call_jwt defaultJwtPayload usr acct pl isNewUser shaped)
           (case shaped of
              Inl e \<Rightarrow> ([], Some e)
            | Inr jwtPayload \<Rightarrow>
                call (Call_jwt_encode jwtPayload (jwt_encode opts jwtPayload))
                  (case jwt_encode opts jwtPayload of
                     Inl e \<Rightarrow> ([], Some e)
                   | Inr newEncodedJwt \<Rightarrow>
                       (case cookie_expires (clock_now mods) (session_maxAge opts) of
                          Inl e \<Rightarrow> ([], Some e)
                        | Inr cookieExpires \<Rightarrow>
                            ([Cookie_set (cookies_sessionToken_name opts) newEncodedJwt
                                cookieExpires (cookies_sessionToken_options opts)], None)))))"

text \<open>
  The persisted session (lines 104 and 194): the cookie carries the token of the session
  record; reading it from a missing record is a TypeError.
\<close>

definition db_session :: "'db options \<Rightarrow> session_record option \<Rightarrow> effect list \<times> thrown option" where
  "db_session opts sess =
     (case sess of
        None \<Rightarrow> ([], Some (ErrorObj ''TypeError'' ''Cannot read properties of undefined''))
      | Some s \<Rightarrow>
          ([Cookie_set (cookies_sessionToken_name opts) (s_sessionToken s)
              (if truthy (s_expires s) then ExpiresStored (the (s_expires s)) else ExpiresNull)
              (cookies_sessionToken_options opts)], None))"


section \<open>The handler\<close>

text \<open>
  The handler is modelled as a function of the configuration, the request and the store of
  the adapter that returns the terminal action, the calls made and the store left. A call
  to a collaborator that can throw is a branch on its result; \<^verbatim>\<open>logger\<close>,
  \<^verbatim>\<open>cookie.set\<close> and \<^verbatim>\<open>redirect\<close> are taken to return normally, and
  \<^verbatim>\<open>oAuthCallback\<close> to run its continuation once unless it throws.
\<close>

text \<open>
  "Sign user in" (lines 83 to 117 of the oauth flow, 173 to 211 of the email flow): the
  materialization, the session cookie, the event and the redirect. The two flows differ in
  the payload they give \<^verbatim>\<open>callbacks.jwt\<close> only.
\<close>

definition sign_user_in ::
  "'db modules \<Rightarrow> 'db options \<Rightarrow> 'db \<Rightarrow> string option \<Rightarrow> user \<Rightarrow> account \<Rightarrow> payload \<Rightarrow> 'db block"
where
  "sign_user_in mods opts db sessionToken profile acct pl =
     (case callbackHandler mods db sessionToken profile acct opts of
        (handled, db') \<Rightarrow>
          call (Call_callbackHandler sessionToken profile acct handled)
            (case handled of
               Inl e \<Rightarrow> ([], db', Inl e)
             | Inr res \<Rightarrow>
                 (case (if session_jwt opts
                        then jwt_session mods opts (m_user res) acct pl (m_isNewUser res)
                        else db_session opts (m_session res)) of
                    (tr, Some e) \<Rightarrow> (tr, db', Inl e)
                  | (tr, None) \<Rightarrow>
                      (tr @ dispatchEvent (events_signIn opts)
                              \<lparr>msg_user = m_user res, msg_account = acct,
                               msg_isNewUser = Some (m_isNewUser res)\<rparr>,
                       db',
                       Inr (if m_isNewUser res \<and> truthy (pages_newUser opts)
                            then Redirect (JString (the (pages_newUser opts)))
                            else Redirect (JString (js_or (callbackUrl opts) (baseUrl opts))))))))"

text \<open>
  The sign-in decision and what follows it (lines 70 to 117 and 160 to 211):
  \<^verbatim>\<open>callbacks.signIn\<close> is asked about \<open>subject\<close>; the materialization is given \<open>profile\<close>.
\<close>

definition authorize_and_sign_in ::
  "'db modules \<Rightarrow> 'db options \<Rightarrow> 'db \<Rightarrow> string option \<Rightarrow> user \<Rightarrow> user \<Rightarrow> account \<Rightarrow>
     payload \<Rightarrow> payload \<Rightarrow> 'db block"
where
  "authorize_and_sign_in mods opts db sessionToken subject profile acct signInPayload jwtPayload =
     call (Call_signIn subject acct signInPayload (callbacks_signIn opts subject acct signInPayload))
       (case callbacks_signIn opts subject acct signInPayload of
          Inl error \<Rightarrow> ([], db, fault_redirect opts error)
        | Inr signInCallbackResponse \<Rightarrow>
            if signInCallbackResponse = JBool False
            then ([], db, Inr (Redirect (error_page opts ''AccessDenied'')))
            else sign_user_in mods opts db sessionToken profile acct jwtPayload)"

subsection \<open>The oauth flow (lines 33 to 133)\<close>

text \<open>Lines 61 to 68: the user already linked to the provider account, or else the profile.\<close>

definition user_or_profile ::
  "'db options \<Rightarrow> 'db \<Rightarrow> user \<Rightarrow> account \<Rightarrow> effect list \<times> (thrown + user)"
where
  "user_or_profile opts db profile acct =
     (case adapter opts of
        None \<Rightarrow> ([], Inr profile)
      | Some ad \<Rightarrow>
          call (Call_getAdapter (getAdapter ad))
            (case getAdapter ad of
               Some e \<Rightarrow> ([], Inl e)
             | None \<Rightarrow>
                 call (Call_getUserByProviderAccountId (a_provider acct) (a_id acct)
                         (getUserByProviderAccountId ad db (a_provider acct) (a_id acct)))
                   (case getUserByProviderAccountId ad db (a_provider acct) (a_id acct) of
                      Inl e \<Rightarrow> ([], Inl e)
                    | Inr None \<Rightarrow> ([], Inr profile)
                    | Inr (Some userFromProviderAccountId) \<Rightarrow>
                        ([], Inr userFromProviderAccountId))))"

text \<open>The body of the inner \<^verbatim>\<open>try\<close> (lines 37 to 117).\<close>

definition oauth_try ::
  "'db modules \<Rightarrow> 'db options \<Rightarrow> 'db \<Rightarrow> string option \<Rightarrow> oauth_response \<Rightarrow> 'db block"
where
  "oauth_try mods opts db sessionToken resp =
     (case resp of
        OAuthError \<Rightarrow>
          ([LogError ''CALLBACK_OAUTH_ERROR''], db,
           Inr (Redirect (JString (baseUrl opts @ basePath opts @ ''/error?error=oAuthCallback''))))
      | OAuthNoProfile \<Rightarrow>
          ([LogDebug ''OAUTH_CALLBACK_RESPONSE''], db,
           Inr (Redirect (JString (baseUrl opts @ basePath opts @ ''/signin''))))
      | OAuthProfile profile acct raw \<Rightarrow>
          call (LogDebug ''OAUTH_CALLBACK_RESPONSE'')
            (case user_or_profile opts db profile acct of
               (tr, Inl e) \<Rightarrow> (tr, db, Inl e)
             | (tr, Inr userOrProfile) \<Rightarrow>
                 (case authorize_and_sign_in mods opts db sessionToken userOrProfile profile acct
                         (RawOAuthProfile raw) (RawOAuthProfile raw) of
                    (tr', rest) \<Rightarrow> (tr @ tr', rest))))"

text \<open>The inner \<^verbatim>\<open>catch\<close> (lines 118 to 128).\<close>

definition oauth_catch :: "'db options \<Rightarrow> thrown \<Rightarrow> effect list \<times> outcome" where
  "oauth_catch opts error =
     (case error_name error of
        Inl typeError \<Rightarrow> ([], Unhandled typeError)
      | Inr n \<Rightarrow>
          if n = Some ''AccountNotLinkedError''
          then ([], Redirect (error_page opts ''OAuthAccountNotLinked''))
          else if n = Some ''CreateUserError''
          then ([], Redirect (error_page opts ''OAuthCreateAccount''))
          else ([LogError ''OAUTH_CALLBACK_HANDLER_ERROR''],
                Redirect (error_page opts ''Callback'')))"

text \<open>
  A \<^verbatim>\<open>try\<close> block with its \<^verbatim>\<open>catch\<close>: the terminal action of the block, or that of the
  handler run on the fault.
\<close>

definition try_catch :: "'db block \<Rightarrow> (thrown \<Rightarrow> effect list \<times> outcome) \<Rightarrow> 'db result" where
  "try_catch blk handler =
     (case blk of
        (tr, db', Inr out) \<Rightarrow> \<lparr>outcome = out, effects = tr, db_after = db'\<rparr>
      | (tr, db', Inl error) \<Rightarrow>
          \<lparr>outcome = snd (handler error), effects = tr @ fst (handler error), db_after = db'\<rparr>)"

definition oauth_flow ::
  "'db modules \<Rightarrow> 'db options \<Rightarrow> provider \<Rightarrow> request \<Rightarrow> 'db \<Rightarrow> string option \<Rightarrow> 'db result"
where
  "oauth_flow mods opts prov req db sessionToken =
     try_catch
       (call (Call_oAuthCallback (oAuthCallback mods req prov (csrfToken opts)))
          (case oAuthCallback mods req prov (csrfToken opts) of
             Inl error \<Rightarrow>
               ([LogError ''OAUTH_CALLBACK_ERROR''], db,
                Inr (Redirect (error_page opts ''Callback'')))
           | Inr resp \<Rightarrow> oauth_try mods opts db sessionToken resp))
       (oauth_catch opts)"

subsection \<open>The email flow (lines 134 to 219)\<close>

text \<open>The body of the \<^verbatim>\<open>try\<close> (lines 136 to 211).\<close>

definition email_try ::
  "'db modules \<Rightarrow> 'db options \<Rightarrow> provider \<Rightarrow> request \<Rightarrow> 'db \<Rightarrow> string option \<Rightarrow> 'db block"
where
  "email_try mods opts prov req db sessionToken =
     (case adapter opts of
        None \<Rightarrow>
          ([LogError ''EMAIL_REQUIRES_ADAPTER_ERROR''], db,
           Inr (Redirect (error_page opts ''Configuration'')))
      | Some ad \<Rightarrow>
          call (Call_getAdapter (getAdapter ad))
            (case getAdapter ad of
               Some e \<Rightarrow> ([], db, Inl e)
             | None \<Rightarrow>
                 (let verificationToken = req_query_token req;
                      email = req_query_email req;
                      invite = getVerificationRequest ad db email verificationToken
                                 (secret opts) prov
                  in call (Call_getVerificationRequest email verificationToken invite)
                       (case invite of
                          Inl e \<Rightarrow> ([], db, Inl e)
                        | Inr None \<Rightarrow> ([], db, Inr (Redirect (error_page opts ''Verification'')))
                        | Inr (Some found) \<Rightarrow>
                            (case deleteVerificationRequest ad db email verificationToken
                                    (secret opts) prov of
                               (deleted, db1) \<Rightarrow>
                                 call (Call_deleteVerificationRequest email verificationToken
                                         deleted)
                                   (case deleted of
                                      Some e \<Rightarrow> ([], db1, Inl e)
                                    | None \<Rightarrow>
                                        call (Call_getUserByEmail email
                                                (getUserByEmail ad db1 email))
                                          (case getUserByEmail ad db1 email of
                                             Inl e \<Rightarrow> ([], db1, Inl e)
                                           | Inr existing \<Rightarrow>
                                               (let profile =
                                                      (case existing of
                                                         Some u \<Rightarrow> u
                                                       | None \<Rightarrow>
                                                           \<lparr>u_id = None, u_name = None,
                                                            u_email = email, u_image = None\<rparr>);
                                                    acct =
                                                      \<lparr>a_provider = None,
                                                       a_id = Some (p_id prov),
                                                       a_type = Some ''email'',
                                                       a_providerAccountId = email\<rparr>
                                                in authorize_and_sign_in mods opts db1
                                                     sessionToken profile profile acct
                                                     (EmailOnly email)
                                                     (UserObject profile)))))))))"

text \<open>The \<^verbatim>\<open>catch\<close> (lines 212 to 219).\<close>

definition email_catch :: "'db options \<Rightarrow> thrown \<Rightarrow> effect list \<times> outcome" where
  "email_catch opts error =
     (case error_name error of
        Inl typeError \<Rightarrow> ([], Unhandled typeError)
      | Inr n \<Rightarrow>
          if n = Some ''CreateUserError''
          then ([], Redirect (error_page opts ''EmailCreateAccount''))
          else ([LogError ''CALLBACK_EMAIL_ERROR''], Redirect (error_page opts ''Callback'')))"

definition email_flow ::
  "'db modules \<Rightarrow> 'db options \<Rightarrow> provider \<Rightarrow> request \<Rightarrow> 'db \<Rightarrow> string option \<Rightarrow> 'db result"
where
  "email_flow mods opts prov req db sessionToken =
     try_catch (email_try mods opts prov req db sessionToken) (email_catch opts)"

subsection \<open>The credentials flow (lines 220 to 281)\<close>

text \<open>
  The branch has no \<^verbatim>\<open>try\<close> around it: a fault of the claims shaping, of the signing, of
  the expiry date or of a \<^verbatim>\<open>catch\<close> block leaves the handler uncaught. The redirect of a
  rejected authorization is built inside the \<^verbatim>\<open>try\<close> of lines 234 to 238, so a URIError
  of \<^verbatim>\<open>encodeURIComponent(provider.id)\<close> is handled by the \<^verbatim>\<open>catch\<close> that follows it.
\<close>

definition credentials_try ::
  "'db modules \<Rightarrow> 'db options \<Rightarrow> provider \<Rightarrow> request \<Rightarrow> 'db \<Rightarrow> 'db block"
where
  "credentials_try mods opts prov req db =
     (if \<not> session_jwt opts
      then ([LogError ''CALLBACK_CREDENTIALS_JWT_ERROR''], db,
            Inr (Redirect (error_page opts ''Configuration'')))
      else (case p_authorize prov of
        None \<Rightarrow>
          ([LogError ''CALLBACK_CREDENTIALS_HANDLER_ERROR''], db,
           Inr (Redirect (error_page opts ''Configuration'')))
      | Some authorize \<Rightarrow>
          (let credentials = req_body req
           in call (Call_authorize credentials (authorize credentials))
                (case authorize credentials of
                   Inl error \<Rightarrow> ([], db, fault_redirect opts error)
                 | Inr None \<Rightarrow>
                     ([], db,
                      (case encodeURIComponent (p_id prov) of
                         Inl uriError \<Rightarrow> fault_redirect opts uriError
                       | Inr encoded \<Rightarrow>
                           Inr (Redirect (JString (baseUrl opts @ basePath opts
                                  @ ''/error?error=CredentialsSignin&provider=''
                                  @ encoded)))))
                 | Inr (Some usr) \<Rightarrow>
                     (let acct =
                            \<lparr>a_provider = None, a_id = Some (p_id prov),
                             a_type = Some ''credentials'', a_providerAccountId = None\<rparr>;
                          signInCallbackResponse =
                            callbacks_signIn opts usr acct (Credentials credentials)
                      in call (Call_signIn usr acct (Credentials credentials)
                                 signInCallbackResponse)
                           (case signInCallbackResponse of
                              Inl error \<Rightarrow> ([], db, fault_redirect opts error)
                            | Inr response \<Rightarrow>
                                if response = JBool False
                                then ([], db, Inr (Redirect (error_page opts ''AccessDenied'')))
                                else (case jwt_session mods opts usr acct (UserObject usr)
                                             False of
                                        (tr, Some e) \<Rightarrow> (tr, db, Inl e)
                                      | (tr, None) \<Rightarrow>
                                          (tr @ dispatchEvent (events_signIn opts)
                                                  \<lparr>msg_user = usr, msg_account = acct,
                                                   msg_isNewUser = None\<rparr>,
                                           db,
                                           Inr (Redirect (JString
                                                  (js_or (callbackUrl opts)
                                                     (baseUrl opts))))))))))))"

definition credentials_flow ::
  "'db modules \<Rightarrow> 'db options \<Rightarrow> provider \<Rightarrow> request \<Rightarrow> 'db \<Rightarrow> 'db result"
where
  "credentials_flow mods opts prov req db =
     try_catch (credentials_try mods opts prov req db) (\<lambda>error. ([], Unhandled error))"

subsection \<open>The dispatch on the provider type (lines 25 to 33, 134, 220 and 282 to 285)\<close>

definition callback :: "'db modules \<Rightarrow> 'db options \<Rightarrow> request \<Rightarrow> 'db \<Rightarrow> 'db result" where
  "callback mods opts req db =
     (case providers opts (providerName opts) of
        None \<Rightarrow>
          \<lparr>outcome = Unhandled (ErrorObj ''TypeError'' ''Cannot destructure property type''),
           effects = [], db_after = db\<rparr>
      | Some prov \<Rightarrow>
          (let sessionToken =
                 (case req_cookies req of
                    Some cs \<Rightarrow> cs (cookies_sessionToken_name opts)
                  | None \<Rightarrow> None)
           in if p_type prov = ''oauth'' then oauth_flow mods opts prov req db sessionToken
              else if p_type prov = ''email'' then email_flow mods opts prov req db sessionToken
              else if p_type prov = ''credentials'' \<and> req_method req = ''POST''
              then credentials_flow mods opts prov req db
              else \<lparr>outcome =
                      Rejected 500
                        (''Error: Callback for provider type '' @ p_type prov @ '' not supported''),
                    effects = [], db_after = db\<rparr>))"


section \<open>Kinds of calls\<close>

datatype kind =
    K_log | K_oauth | K_adapter | K_authorize | K_signIn | K_materialize
  | K_claims | K_encode | K_cookie | K_dispatch

fun kind_of :: "effect \<Rightarrow> kind" where
  "kind_of (LogError c) = K_log"
| "kind_of (LogDebug c) = K_log"
| "kind_of (Call_oAuthCallback r) = K_oauth"
| "kind_of (Call_getAdapter r) = K_adapter"
| "kind_of (Call_getUserByProviderAccountId p i r) = K_adapter"
| "kind_of (Call_getVerificationRequest e t r) = K_adapter"
| "kind_of (Call_deleteVerificationRequest e t r) = K_adapter"
| "kind_of (Call_getUserByEmail e r) = K_adapter"
| "kind_of (Call_authorize c r) = K_authorize"
| "kind_of (Call_signIn u a p r) = K_signIn"
| "kind_of (Call_callbackHandler t u a r) = K_materialize"
| "kind_of (Call_jwt d u a p n r) = K_claims"
| "kind_of (Call_jwt_encode c r) = K_encode"
| "kind_of (Cookie_set n v e opts) = K_cookie"
| "kind_of (Dispatch_signIn m) = K_dispatch"

definition kinds :: "effect list \<Rightarrow> kind set" where
  "kinds tr = set (map kind_of tr)"



section \<open>A sample deployment\<close>

text \<open>
  A deployment with one provider of each type and one of an unsupported type, an adapter
  whose store is the list of outstanding (email, token) verification requests, and policy
  callbacks that allow every sign-in. The theorems below are instantiated on it.
\<close>

type_synonym demo_store = "(string option \<times> string option) list"

definition alice :: user where
  "alice = \<lparr>u_id = Some ''1'', u_name = Some ''Alice'',
            u_email = Some ''alice@example.com'', u_image = None\<rparr>"

definition demo_adapter :: "demo_store adapter" where
  "demo_adapter =
     \<lparr>getAdapter = None,
      getUserByProviderAccountId = (\<lambda>db p i. Inr None),
      getVerificationRequest =
        (\<lambda>db e t s p. if (e, t) \<in> set db then Inr (Some ''invite'') else Inr None),
      deleteVerificationRequest = (\<lambda>db e t s p. (None, removeAll (e, t) db)),
      getUserByEmail = (\<lambda>db e. Inr None)\<rparr>"

definition demo_providers :: "string \<rightharpoonup> provider" where
  "demo_providers =
     [''github'' \<mapsto> \<lparr>p_id = ''github'', p_type = ''oauth'', p_authorize = None\<rparr>,
      ''email'' \<mapsto> \<lparr>p_id = ''email'', p_type = ''email'', p_authorize = None\<rparr>,
      ''login'' \<mapsto>
        \<lparr>p_id = ''login'', p_type = ''credentials'',
         p_authorize =
           Some (\<lambda>body. if body = ''alice:secret'' then Inr (Some alice) else Inr None)\<rparr>,
      ''saml'' \<mapsto> \<lparr>p_id = ''saml'', p_type = ''saml'', p_authorize = None\<rparr>]"

definition demo_options :: "string \<Rightarrow> demo_store options" where
  "demo_options name =
     \<lparr>providerName = name,
      providers = demo_providers,
      adapter = Some demo_adapter,
      baseUrl = ''https://example.com'',
      basePath = ''/api/auth'',
      secret = ''s3cret'',
      cookies_sessionToken_name = ''next-auth.session-token'',
      cookies_sessionToken_options = ''HttpOnly'',
      callbackUrl = Some ''https://example.com/home'',
      pages_newUser = None,
      jwt_encode = (\<lambda>c. Inr ''signed-token''),
      events_signIn = (\<lambda>m. None),
      callbacks_signIn = (\<lambda>u a p. Inr (JBool True)),
      callbacks_jwt = (\<lambda>c u a p n. Inr c),
      csrfToken = ''csrf'',
      session_jwt = True,
      session_maxAge = 2592000\<rparr>"

definition demo_modules :: "demo_store modules" where
  "demo_modules =
     \<lparr>oAuthCallback =
        (\<lambda>req prov csrf.
           Inr (OAuthProfile alice
                  \<lparr>a_provider = Some ''github'', a_id = Some ''42'', a_type = Some ''oauth'',
                   a_providerAccountId = None\<rparr>
                  ''{}'')),
      callbackHandler =
        (\<lambda>db st prof acct opts.
           (Inr \<lparr>m_user = prof,
                 m_session = Some \<lparr>s_sessionToken = ''session-1'', s_expires = None\<rparr>,
                 m_isNewUser = False\<rparr>, db)),
      clock_now = 1600000000000\<rparr>"

definition demo_request :: request where
  "demo_request =
     \<lparr>req_cookies = None,
      req_query_token = Some ''tok123'',
      req_query_email = Some ''alice@example.com'',
      req_method = ''POST'',
      req_body = ''alice:secret''\<rparr>"

definition demo_db :: demo_store where
  "demo_db = [(Some ''alice@example.com'', Some ''tok123'')]"

text \<open>The placeholder profile and the accounts the three flows build for the sample request.\<close>

definition demo_email_profile :: user where
  "demo_email_profile =
     \<lparr>u_id = None, u_name = None, u_email = Some ''alice@example.com'', u_image = None\<rparr>"

definition demo_email_account :: account where
  "demo_email_account =
     \<lparr>a_provider = None, a_id = Some ''email'', a_type = Some ''email'',
      a_providerAccountId = Some ''alice@example.com''\<rparr>"

definition demo_oauth_account :: account where
  "demo_oauth_account =
     \<lparr>a_provider = Some ''github'', a_id = Some ''42'', a_type = Some ''oauth'',
      a_providerAccountId = None\<rparr>"

definition demo_login_account :: account where
  "demo_login_account =
     \<lparr>a_provider = None, a_id = Some ''login'', a_type = Some ''credentials'',
      a_providerAccountId = None\<rparr>"


text \<open>The sample deployment with a sign-in policy that always answers \<open>r\<close>.\<close>

definition demo_with_policy :: "thrown + jsvalue \<Rightarrow> string \<Rightarrow> demo_store options" where
  "demo_with_policy r name = (demo_options name)\<lparr>callbacks_signIn := (\<lambda>u a p. r)\<rparr>"

text \<open>The sample modules with a materialization that always fails with \<open>e\<close>.\<close>

definition demo_failing_materializer :: "thrown \<Rightarrow> demo_store modules" where
  "demo_failing_materializer e =
     demo_modules\<lparr>callbackHandler := (\<lambda>db st prof acct opts. (Inl e, db))\<rparr>"


section \<open>Evaluation and proof rules\<close>

text \<open>The definitions a concrete run is evaluated with.\<close>

lemmas flow_defs = callback_def oauth_flow_def oauth_try_def oauth_catch_def user_or_profile_def
  email_flow_def email_try_def email_catch_def credentials_flow_def credentials_try_def
  authorize_and_sign_in_def try_catch_def
  sign_user_in_def jwt_session_def db_session_def dispatchEvent_def cookie_expires_def
  error_page_def

lemmas demo_defs = demo_options_def demo_modules_def demo_request_def demo_db_def
  demo_providers_def demo_adapter_def alice_def demo_email_profile_def demo_email_account_def
  demo_oauth_account_def demo_login_account_def demo_with_policy_def
  demo_failing_materializer_def


subsection \<open>Traces and blocks\<close>

lemma kinds_simps [simp]:
  "kinds [] = {}" "kinds (e # tr) = insert (kind_of e) (kinds tr)"
  "kinds (tr @ tr') = kinds tr \<union> kinds tr'"
  by (auto simp: kinds_def)

lemma in_set_kind: "e \<in> set tr \<Longrightarrow> kind_of e \<in> kinds tr"
  by (simp add: kinds_def)

lemma call_simps [simp]: "fst (call e b) = e # fst b" "snd (call e b) = snd b"
  by (cases b; simp)+

lemma call_eq: "call e b = (e # fst b, snd b)"
  by (cases b) simp

lemma try_catch_simps [simp]:
  "outcome (try_catch b h) = (case snd (snd b) of Inr out \<Rightarrow> out | Inl e \<Rightarrow> snd (h e))"
  "effects (try_catch b h)
     = fst b @ (case snd (snd b) of Inr out \<Rightarrow> [] | Inl e \<Rightarrow> fst (h e))"
  "db_after (try_catch b h) = fst (snd b)"
  by (simp_all add: try_catch_def split: sum.splits prod.splits)

subsection \<open>The session and the event\<close>

lemma jwt_session_kinds:
  "kinds (fst (jwt_session mods opts usr acct pl n)) \<subseteq> {K_claims, K_encode, K_cookie}"
  by (simp add: jwt_session_def Let_def split: sum.splits)

lemma db_session_kinds:
  "kinds (fst (db_session opts s)) \<subseteq> {K_cookie}"
  by (simp add: db_session_def split: option.splits)

lemma dispatchEvent_kinds:
  "kinds (dispatchEvent fn msg) \<subseteq> {K_dispatch, K_log}"
  by (simp add: dispatchEvent_def split: option.splits)

lemma dispatchEvent_kindD:
  "k \<in> kinds (dispatchEvent fn msg) \<Longrightarrow> k = K_dispatch \<or> k = K_log"
  using dispatchEvent_kinds[of fn msg] by auto

lemma session_stage_kinds:
  "kinds (fst (if session_jwt opts
               then jwt_session mods opts u acct pl n
               else db_session opts s)) \<subseteq> {K_claims, K_encode, K_cookie}"
  using jwt_session_kinds[of mods opts u acct pl n] db_session_kinds[of opts s]
  by (auto split: if_splits)

lemma session_stage_events:
  "jwt_session mods (opts\<lparr>events_signIn := h\<rparr>) u acct pl n = jwt_session mods opts u acct pl n"
  "db_session (opts\<lparr>events_signIn := h\<rparr>) s = db_session opts s"
  by (simp_all add: jwt_session_def db_session_def Let_def cong: sum.case_cong option.case_cong)


lemma jwt_session_isNewUser:
  "jwt_session mods opts usr acct pl b = (tr, f) \<Longrightarrow> Call_jwt d u a p n r \<in> set tr \<Longrightarrow> n = b"
  by (auto simp: jwt_session_def Let_def call_eq split: sum.splits)

subsection \<open>The shapes a stage can take\<close>

text \<open>Each rule lists the ways a stage can end, with the calls, the store and the result of each.\<close>

lemma sign_user_in_kinds:
  "kinds (fst (sign_user_in mods opts db st prof acct pl))
     \<subseteq> {K_materialize, K_claims, K_encode, K_cookie, K_dispatch, K_log}"
proof -
  obtain r db' where h: "callbackHandler mods db st prof acct opts = (r, db')"
    by (cases "callbackHandler mods db st prof acct opts")
  show ?thesis
  proof (cases r)
    case (Inl e)
    with h show ?thesis by (simp add: sign_user_in_def)
  next
    case (Inr res)
    obtain tr f where s: "(if session_jwt opts
                 then jwt_session mods opts (m_user res) acct pl (m_isNewUser res)
                 else db_session opts (m_session res)) = (tr, f)"
      by (cases "(if session_jwt opts
                 then jwt_session mods opts (m_user res) acct pl (m_isNewUser res)
                 else db_session opts (m_session res))")
    have k: "kinds tr \<subseteq> {K_claims, K_encode, K_cookie}"
      using session_stage_kinds[of opts mods "m_user res" acct pl "m_isNewUser res" "m_session res"] s
      by simp
    show ?thesis
      using h Inr s k dispatchEvent_kinds[of "events_signIn opts"]
      by (cases f) (auto simp: sign_user_in_def)
  qed
qed

lemma sign_user_in_db:
  "fst (snd (sign_user_in mods opts db st prof acct pl))
     = snd (callbackHandler mods db st prof acct opts)"
  by (simp add: sign_user_in_def split: prod.splits sum.splits option.splits)

lemma sign_user_in_cases [case_names materialize_fault session_fault signed_in]:
  obtains
    (materialize_fault) e db' where
      "callbackHandler mods db st prof acct opts = (Inl e, db')"
      "sign_user_in mods opts db st prof acct pl
         = ([Call_callbackHandler st prof acct (Inl e)], db', Inl e)"
  | (session_fault) res db' tr e where
      "callbackHandler mods db st prof acct opts = (Inr res, db')"
      "(if session_jwt opts
        then jwt_session mods opts (m_user res) acct pl (m_isNewUser res)
        else db_session opts (m_session res)) = (tr, Some e)"
      "kinds tr \<subseteq> {K_claims, K_encode, K_cookie}"
      "sign_user_in mods opts db st prof acct pl
         = (Call_callbackHandler st prof acct (Inr res) # tr, db', Inl e)"
  | (signed_in) res db' tr where
      "callbackHandler mods db st prof acct opts = (Inr res, db')"
      "(if session_jwt opts
        then jwt_session mods opts (m_user res) acct pl (m_isNewUser res)
        else db_session opts (m_session res)) = (tr, None)"
      "kinds tr \<subseteq> {K_claims, K_encode, K_cookie}"
      "sign_user_in mods opts db st prof acct pl
         = (Call_callbackHandler st prof acct (Inr res) # tr
              @ dispatchEvent (events_signIn opts)
                  \<lparr>msg_user = m_user res, msg_account = acct,
                   msg_isNewUser = Some (m_isNewUser res)\<rparr>,
            db',
            Inr (if m_isNewUser res \<and> truthy (pages_newUser opts)
                 then Redirect (JString (the (pages_newUser opts)))
                 else Redirect (JString (js_or (callbackUrl opts) (baseUrl opts)))))"
proof -
  obtain r db' where h: "callbackHandler mods db st prof acct opts = (r, db')"
    by (cases "callbackHandler mods db st prof acct opts")
  show ?thesis
  proof (cases r)
    case (Inl e)
    with h show ?thesis by (intro materialize_fault[of e db']) (simp_all add: sign_user_in_def)
  next
    case (Inr res)
    obtain tr f where s: "(if session_jwt opts
                 then jwt_session mods opts (m_user res) acct pl (m_isNewUser res)
                 else db_session opts (m_session res)) = (tr, f)"
      by (cases "(if session_jwt opts
                 then jwt_session mods opts (m_user res) acct pl (m_isNewUser res)
                 else db_session opts (m_session res))")
    have k: "kinds tr \<subseteq> {K_claims, K_encode, K_cookie}"
      using session_stage_kinds[of opts mods "m_user res" acct pl "m_isNewUser res" "m_session res"] s
      by simp
    show ?thesis
    proof (cases f)
      case None
      with h Inr s k show ?thesis
        by (intro signed_in[of res db' tr]) (simp_all add: sign_user_in_def)
    next
      case (Some e)
      with h Inr s k show ?thesis
        by (intro session_fault[of res db' tr e]) (simp_all add: sign_user_in_def)
    qed
  qed
qed

lemma authorize_and_sign_in_cases [case_names policy_fault denied allowed]:
  obtains
    (policy_fault) e where
      "authorize_and_sign_in mods opts db st subject prof acct sp jp
         = ([Call_signIn subject acct sp (Inl e)], db, fault_redirect opts e)"
  | (denied)
      "authorize_and_sign_in mods opts db st subject prof acct sp jp
         = ([Call_signIn subject acct sp (Inr (JBool False))], db,
            Inr (Redirect (error_page opts ''AccessDenied'')))"
  | (allowed) v where
      "v \<noteq> JBool False"
      "authorize_and_sign_in mods opts db st subject prof acct sp jp
         = call (Call_signIn subject acct sp (Inr v))
             (sign_user_in mods opts db st prof acct jp)"
proof (cases "callbacks_signIn opts subject acct sp")
  case (Inl e)
  then show ?thesis by (intro policy_fault[of e]) (simp add: authorize_and_sign_in_def)
next
  case (Inr v)
  show ?thesis
  proof (cases "v = JBool False")
    case True
    with Inr show ?thesis by (intro denied) (simp add: authorize_and_sign_in_def)
  next
    case False
    with Inr show ?thesis by (intro allowed[of v]) (simp_all add: authorize_and_sign_in_def)
  qed
qed

lemma user_or_profile_kinds:
  "kinds (fst (user_or_profile opts db prof acct)) \<subseteq> {K_adapter}"
  by (simp add: user_or_profile_def split: option.splits sum.splits)

lemma oauth_catch_kinds: "kinds (fst (oauth_catch opts e)) \<subseteq> {K_log}"
  by (simp add: oauth_catch_def split: sum.splits)

lemma email_catch_kinds: "kinds (fst (email_catch opts e)) \<subseteq> {K_log}"
  by (simp add: email_catch_def split: sum.splits)

lemma oauth_flow_cases [case_names early gated]:
  obtains
    (early)
      "kinds (effects (oauth_flow mods opts prov req db st)) \<subseteq> {K_oauth, K_log, K_adapter}"
      "db_after (oauth_flow mods opts prov req db st) = db"
  | (gated) pre subject profile acct raw where
      "kinds pre \<subseteq> {K_oauth, K_log, K_adapter}"
      "oauth_flow mods opts prov req db st
         = try_catch
             (pre @ fst (authorize_and_sign_in mods opts db st subject profile acct
                          (RawOAuthProfile raw) (RawOAuthProfile raw)),
              snd (authorize_and_sign_in mods opts db st subject profile acct
                          (RawOAuthProfile raw) (RawOAuthProfile raw)))
             (oauth_catch opts)"
proof (cases "oAuthCallback mods req prov (csrfToken opts)")
  case (Inl e)
  then show ?thesis by (intro early) (simp_all add: oauth_flow_def)
next
  case (Inr resp)
  show ?thesis
  proof (cases resp)
    case OAuthError
    with Inr show ?thesis by (intro early) (simp_all add: oauth_flow_def oauth_try_def)
  next
    case OAuthNoProfile
    with Inr show ?thesis by (intro early) (simp_all add: oauth_flow_def oauth_try_def)
  next
    case (OAuthProfile profile acct raw)
    obtain tr r where u: "user_or_profile opts db profile acct = (tr, r)"
      by (cases "user_or_profile opts db profile acct")
    have k: "kinds tr \<subseteq> {K_adapter}"
      using user_or_profile_kinds[of opts db profile acct] u by simp
    show ?thesis
    proof (cases r)
      case (Inl e)
      with Inr OAuthProfile u k oauth_catch_kinds[of opts e] show ?thesis
        by (intro early) (auto simp: oauth_flow_def oauth_try_def)
    next
      case (Inr subject)
      with \<open>oAuthCallback mods req prov (csrfToken opts) = Inr resp\<close> OAuthProfile u k
      show ?thesis
        by (intro gated[of "Call_oAuthCallback (Inr resp) # LogDebug ''OAUTH_CALLBACK_RESPONSE'' # tr"
              subject profile acct raw])
           (auto simp: oauth_flow_def oauth_try_def split: prod.splits)
    qed
  qed
qed

lemma email_try_cases
  [case_names no_adapter adapter_fault lookup_fault no_token delete_fault user_fault verified]:
  fixes mods :: "'db modules" and opts prov req db st
  defines "tok \<equiv> req_query_token req" and "email \<equiv> req_query_email req"
  obtains
    (no_adapter)
      "email_try mods opts prov req db st
         = ([LogError ''EMAIL_REQUIRES_ADAPTER_ERROR''], db,
            Inr (Redirect (error_page opts ''Configuration'')))"
  | (adapter_fault) e where
      "email_try mods opts prov req db st = ([Call_getAdapter (Some e)], db, Inl e)"
  | (lookup_fault) e where
      "email_try mods opts prov req db st
         = ([Call_getAdapter None, Call_getVerificationRequest email tok (Inl e)], db, Inl e)"
  | (no_token) ad where
      "adapter opts = Some ad"
      "getAdapter ad = None"
      "getVerificationRequest ad db email tok (secret opts) prov = Inr None"
      "email_try mods opts prov req db st
         = ([Call_getAdapter None, Call_getVerificationRequest email tok (Inr None)], db,
            Inr (Redirect (error_page opts ''Verification'')))"
  | (delete_fault) ad found e db1 where
      "adapter opts = Some ad"
      "getAdapter ad = None"
      "deleteVerificationRequest ad db email tok (secret opts) prov = (Some e, db1)"
      "email_try mods opts prov req db st
         = ([Call_getAdapter None, Call_getVerificationRequest email tok (Inr (Some found)),
             Call_deleteVerificationRequest email tok (Some e)], db1, Inl e)"
  | (user_fault) ad found e db1 where
      "adapter opts = Some ad"
      "getAdapter ad = None"
      "deleteVerificationRequest ad db email tok (secret opts) prov = (None, db1)"
      "email_try mods opts prov req db st
         = ([Call_getAdapter None, Call_getVerificationRequest email tok (Inr (Some found)),
             Call_deleteVerificationRequest email tok None,
             Call_getUserByEmail email (Inl e)], db1, Inl e)"
  | (verified) ad found db1 existing profile acct where
      "adapter opts = Some ad"
      "getAdapter ad = None"
      "deleteVerificationRequest ad db email tok (secret opts) prov = (None, db1)"
      "email_try mods opts prov req db st
         = ([Call_getAdapter None, Call_getVerificationRequest email tok (Inr (Some found)),
             Call_deleteVerificationRequest email tok None,
             Call_getUserByEmail email (Inr existing)]
            @ fst (authorize_and_sign_in mods opts db1 st profile profile acct
                     (EmailOnly email) (UserObject profile)),
            snd (authorize_and_sign_in mods opts db1 st profile profile acct
                     (EmailOnly email) (UserObject profile)))"
proof (cases "adapter opts")
  case None
  then show ?thesis by (intro no_adapter) (simp add: email_try_def)
next
  case (Some ad)
  note ad = this
  show ?thesis
  proof (cases "getAdapter ad")
    case (Some e)
    with ad show ?thesis by (intro adapter_fault[of e]) (simp add: email_try_def)
  next
    case None
    note ga = this
    show ?thesis
    proof (cases "getVerificationRequest ad db email tok (secret opts) prov")
      case (Inl e)
      with ad ga show ?thesis
        by (intro lookup_fault[of e]) (simp add: email_try_def tok_def email_def Let_def)
    next
      case (Inr invite)
      note gv = this
      show ?thesis
      proof (cases invite)
        case None
        with ad ga gv show ?thesis
          by (intro no_token[of ad]) (simp_all add: email_try_def tok_def email_def Let_def)
      next
        case (Some found)
        note inv = this
        obtain deleted db1 where
          del: "deleteVerificationRequest ad db email tok (secret opts) prov = (deleted, db1)"
          by (cases "deleteVerificationRequest ad db email tok (secret opts) prov")
        show ?thesis
        proof (cases deleted)
          case (Some e)
          with ad ga gv inv del show ?thesis
            by (intro delete_fault[of ad e db1 found])
               (simp_all add: email_try_def tok_def email_def Let_def)
        next
          case None
          note dl = this
          show ?thesis
          proof (cases "getUserByEmail ad db1 email")
            case (Inl e)
            with ad ga gv inv del dl show ?thesis
              by (intro user_fault[of ad db1 found e])
                 (simp_all add: email_try_def tok_def email_def Let_def)
          next
            case (Inr existing)
            with ad ga gv inv del dl show ?thesis
              by (intro verified[of ad db1 found existing
                    "case existing of Some u \<Rightarrow> u
                     | None \<Rightarrow> \<lparr>u_id = None, u_name = None, u_email = email, u_image = None\<rparr>"
                    "\<lparr>a_provider = None, a_id = Some (p_id prov), a_type = Some ''email'',
                      a_providerAccountId = email\<rparr>"])
                 (simp_all add: email_try_def tok_def email_def Let_def call_eq
                    cong: option.case_cong)
          qed
        qed
      qed
    qed
  qed
qed

lemma email_flow_cases [case_names early gated]:
  obtains
    (early)
      "kinds (effects (email_flow mods opts prov req db st)) \<subseteq> {K_log, K_adapter}"
  | (gated) pre db1 profile acct sp jp where
      "kinds pre \<subseteq> {K_adapter}"
      "email_flow mods opts prov req db st
         = try_catch
             (pre @ fst (authorize_and_sign_in mods opts db1 st profile profile acct sp jp),
              snd (authorize_and_sign_in mods opts db1 st profile profile acct sp jp))
             (email_catch opts)"
proof (cases rule: email_try_cases[of mods opts prov req db st])
  case no_adapter
  then show ?thesis by (intro early) (simp add: email_flow_def)
next
  case (adapter_fault e)
  then show ?thesis using email_catch_kinds[of opts e] by (intro early) (auto simp: email_flow_def)
next
  case (lookup_fault e)
  then show ?thesis using email_catch_kinds[of opts e] by (intro early) (auto simp: email_flow_def)
next
  case (no_token ad)
  then show ?thesis by (intro early) (simp add: email_flow_def)
next
  case (delete_fault ad found e db1)
  then show ?thesis using email_catch_kinds[of opts e] by (intro early) (auto simp: email_flow_def)
next
  case (user_fault ad found e db1)
  then show ?thesis using email_catch_kinds[of opts e] by (intro early) (auto simp: email_flow_def)
next
  case (verified ad found db1 existing profile acct)
  show ?thesis
    by (rule gated[of "[Call_getAdapter None,
              Call_getVerificationRequest (req_query_email req) (req_query_token req)
                (Inr (Some found)),
              Call_deleteVerificationRequest (req_query_email req) (req_query_token req) None,
              Call_getUserByEmail (req_query_email req) (Inr existing)]"
            db1 profile acct "EmailOnly (req_query_email req)" "UserObject profile"])
       (simp_all add: email_flow_def verified(4))
qed

lemma credentials_try_cases
  [case_names no_jwt no_authorize authorize_fault rejected policy_fault denied session_fault
     signed_in]:
  fixes mods :: "'db modules" and opts prov req db
  defines "body \<equiv> req_body req"
    and "acct \<equiv> \<lparr>a_provider = None, a_id = Some (p_id prov), a_type = Some ''credentials'',
                  a_providerAccountId = None\<rparr>"
  obtains
    (no_jwt)
      "\<not> session_jwt opts"
      "credentials_try mods opts prov req db
         = ([LogError ''CALLBACK_CREDENTIALS_JWT_ERROR''], db,
            Inr (Redirect (error_page opts ''Configuration'')))"
  | (no_authorize)
      "credentials_try mods opts prov req db
         = ([LogError ''CALLBACK_CREDENTIALS_HANDLER_ERROR''], db,
            Inr (Redirect (error_page opts ''Configuration'')))"
  | (authorize_fault) e where
      "credentials_try mods opts prov req db
         = ([Call_authorize body (Inl e)], db, fault_redirect opts e)"
  | (rejected)
      "credentials_try mods opts prov req db
         = ([Call_authorize body (Inr None)], db,
            (case encodeURIComponent (p_id prov) of
               Inl uriError \<Rightarrow> fault_redirect opts uriError
             | Inr encoded \<Rightarrow>
                 Inr (Redirect (JString (baseUrl opts @ basePath opts
                        @ ''/error?error=CredentialsSignin&provider='' @ encoded)))))"
  | (policy_fault) usr e where
      "credentials_try mods opts prov req db
         = ([Call_authorize body (Inr (Some usr)),
             Call_signIn usr acct (Credentials body) (Inl e)], db,
            fault_redirect opts e)"
  | (denied) usr where
      "credentials_try mods opts prov req db
         = ([Call_authorize body (Inr (Some usr)),
             Call_signIn usr acct (Credentials body) (Inr (JBool False))], db,
            Inr (Redirect (error_page opts ''AccessDenied'')))"
  | (session_fault) usr v tr e where
      "v \<noteq> JBool False"
      "jwt_session mods opts usr acct (UserObject usr) False = (tr, Some e)"
      "kinds tr \<subseteq> {K_claims, K_encode, K_cookie}"
      "credentials_try mods opts prov req db
         = ([Call_authorize body (Inr (Some usr)),
             Call_signIn usr acct (Credentials body) (Inr v)] @ tr, db, Inl e)"
  | (signed_in) usr v tr where
      "v \<noteq> JBool False"
      "jwt_session mods opts usr acct (UserObject usr) False = (tr, None)"
      "kinds tr \<subseteq> {K_claims, K_encode, K_cookie}"
      "credentials_try mods opts prov req db
         = ([Call_authorize body (Inr (Some usr)),
             Call_signIn usr acct (Credentials body) (Inr v)] @ tr
            @ dispatchEvent (events_signIn opts)
                \<lparr>msg_user = usr, msg_account = acct, msg_isNewUser = None\<rparr>,
            db, Inr (Redirect (JString (js_or (callbackUrl opts) (baseUrl opts)))))"
proof (cases "session_jwt opts")
  case False
  then show ?thesis by (intro no_jwt) (simp_all add: credentials_try_def)
next
  case True
  note jw = this
  show ?thesis
  proof (cases "p_authorize prov")
    case None
    with jw show ?thesis by (intro no_authorize) (simp add: credentials_try_def)
  next
    case (Some authorize)
    note au = this
    show ?thesis
    proof (cases "authorize body")
      case (Inl e)
      with jw au show ?thesis
        by (intro authorize_fault[of e]) (simp add: credentials_try_def body_def Let_def)
    next
      case (Inr found)
      note fo = this
      show ?thesis
      proof (cases found)
        case None
        with jw au fo show ?thesis
          by (intro rejected) (simp add: credentials_try_def body_def Let_def)
      next
        case (Some usr)
        note us = this
        show ?thesis
        proof (cases "callbacks_signIn opts usr acct (Credentials body)")
          case (Inl e)
          with jw au fo us show ?thesis
            by (intro policy_fault[of usr e])
               (simp add: credentials_try_def body_def acct_def Let_def)
        next
          case (Inr v)
          note si = this
          show ?thesis
          proof (cases "v = JBool False")
            case True
            with jw au fo us si show ?thesis
              by (intro denied[of usr])
                 (simp add: credentials_try_def body_def acct_def Let_def)
          next
            case False
            note nf = this
            obtain tr f where
              js: "jwt_session mods opts usr acct (UserObject usr) False = (tr, f)"
              by (cases "jwt_session mods opts usr acct (UserObject usr) False")
            have k: "kinds tr \<subseteq> {K_claims, K_encode, K_cookie}"
              using jwt_session_kinds[of mods opts usr acct "UserObject usr" False] js by simp
            show ?thesis
            proof (cases f)
              case None
              with jw au fo us si nf js k show ?thesis
                by (intro signed_in[of v usr tr])
                   (simp_all add: credentials_try_def body_def acct_def Let_def)
            next
              case (Some e)
              with jw au fo us si nf js k show ?thesis
                by (intro session_fault[of v usr tr e])
                   (simp_all add: credentials_try_def body_def acct_def Let_def)
            qed
          qed
        qed
      qed
    qed
  qed
qed

lemma callback_cases [case_names quiet gated credentials]:
  obtains
    (quiet)
      "kinds (effects (callback mods opts req db)) \<subseteq> {K_oauth, K_log, K_adapter}"
  | (gated) pre db0 st subject profile acct sp jp handler where
      "kinds pre \<subseteq> {K_oauth, K_log, K_adapter}"
      "\<And>e. kinds (fst (handler e)) \<subseteq> {K_log}"
      "callback mods opts req db
         = try_catch
             (pre @ fst (authorize_and_sign_in mods opts db0 st subject profile acct sp jp),
              snd (authorize_and_sign_in mods opts db0 st subject profile acct sp jp))
             handler"
  | (credentials) prov where
      "callback mods opts req db = credentials_flow mods opts prov req db"
proof (cases "providers opts (providerName opts)")
  case None
  then show ?thesis by (intro quiet) (simp add: callback_def)
next
  case (Some prov)
  define st where "st = (case req_cookies req of
                    Some cs \<Rightarrow> cs (cookies_sessionToken_name opts)
                  | None \<Rightarrow> None)"
  consider (oauth) "p_type prov = ''oauth''"
    | (email) "p_type prov \<noteq> ''oauth''" "p_type prov = ''email''"
    | (cred) "p_type prov \<noteq> ''oauth''" "p_type prov \<noteq> ''email''"
        "p_type prov = ''credentials'' \<and> req_method req = ''POST''"
    | (other) "p_type prov \<noteq> ''oauth''" "p_type prov \<noteq> ''email''"
        "\<not> (p_type prov = ''credentials'' \<and> req_method req = ''POST'')"
    by blast
  then show ?thesis
  proof cases
    case oauth
    then have c: "callback mods opts req db = oauth_flow mods opts prov req db st"
      using Some by (simp add: callback_def st_def)
    show ?thesis
    proof (cases rule: oauth_flow_cases[of mods opts prov req db st])
      case early
      then show ?thesis using c by (intro quiet) simp
    next
      case (gated pre subject profile acct raw)
      show ?thesis
        by (rule that(2)[of pre "oauth_catch opts" db st subject profile acct
                "RawOAuthProfile raw" "RawOAuthProfile raw"])
           (simp_all add: gated c oauth_catch_kinds)
    qed
  next
    case email
    then have c: "callback mods opts req db = email_flow mods opts prov req db st"
      using Some by (simp add: callback_def st_def)
    show ?thesis
    proof (cases rule: email_flow_cases[of mods opts prov req db st])
      case early
      then show ?thesis using c by (intro quiet) auto
    next
      case (gated pre db1 profile acct sp jp)
      show ?thesis
        by (rule that(2)[of pre "email_catch opts" db1 st profile profile acct sp jp])
           (use gated c email_catch_kinds in auto)
    qed
  next
    case cred
    then show ?thesis using Some by (intro credentials[of prov]) (simp add: callback_def)
  next
    case other
    then show ?thesis using Some by (intro quiet) (auto simp: callback_def)
  qed
qed

lemma gated_member:
  assumes "kinds pre \<subseteq> {K_oauth, K_log, K_adapter}"
    and "\<And>e. kinds (fst (handler e)) \<subseteq> {K_log}"
    and "ev \<in> set (effects (try_catch (pre @ fst blk, snd blk) handler))"
    and "kind_of ev \<notin> {K_oauth, K_log, K_adapter}"
  shows "ev \<in> set (fst blk)"
proof -
  have "ev \<notin> set pre"
    using assms(1,4) in_set_kind[of ev pre] by auto
  moreover have "ev \<notin> set (fst (handler e))" for e
    using assms(2)[of e] assms(4) in_set_kind[of ev "fst (handler e)"] by auto
  ultimately show ?thesis
    using assms(3) by (auto split: sum.splits)
qed

lemma callback_email:
  assumes "providers opts (providerName opts) = Some prov" and "p_type prov = ''email''"
  shows "\<exists>st. callback mods opts req db = email_flow mods opts prov req db st"
  using assms by (simp add: callback_def) blast

subsection \<open>Facts about the sign-in stages\<close>


lemma sign_user_in_fault:
  assumes "Call_callbackHandler t u a (Inl e) \<in> set (fst (sign_user_in mods opts db st prof acct pl))"
  shows "snd (snd (sign_user_in mods opts db st prof acct pl)) = Inl e"
  using assms
  by (cases rule: sign_user_in_cases[of mods db st prof acct opts pl])
     (auto dest!: in_set_kind dest: dispatchEvent_kindD)


lemma asi_kinds:
  "kinds (fst (authorize_and_sign_in mods opts db st subject prof acct sp jp))
     \<subseteq> {K_signIn, K_materialize, K_claims, K_encode, K_cookie, K_dispatch, K_log}"
  using sign_user_in_kinds[of mods opts db st prof acct jp]
  by (cases rule: authorize_and_sign_in_cases[of mods opts db st subject prof acct sp jp]) auto

lemma asi_db:
  "fst (snd (authorize_and_sign_in mods opts db st subject prof acct sp jp)) = db
   \<or> fst (snd (authorize_and_sign_in mods opts db st subject prof acct sp jp))
       = snd (callbackHandler mods db st prof acct opts)"
  using sign_user_in_db[of mods opts db st prof acct jp]
  by (cases rule: authorize_and_sign_in_cases[of mods opts db st subject prof acct sp jp]) auto

lemma asi_denied:
  assumes "Call_signIn u a p (Inr (JBool False))
             \<in> set (fst (authorize_and_sign_in mods opts db st subject prof acct sp jp))"
  shows "snd (snd (authorize_and_sign_in mods opts db st subject prof acct sp jp))
           = Inr (Redirect (error_page opts ''AccessDenied''))
         \<and> kinds (fst (authorize_and_sign_in mods opts db st subject prof acct sp jp))
           = {K_signIn}"
  using assms sign_user_in_kinds[of mods opts db st prof acct jp]
  by (cases rule: authorize_and_sign_in_cases[of mods opts db st subject prof acct sp jp])
     (auto dest!: in_set_kind)



lemma asi_materialize_fault:
  assumes "Call_callbackHandler t u a (Inl e)
             \<in> set (fst (authorize_and_sign_in mods opts db st subject prof acct sp jp))"
  shows "snd (snd (authorize_and_sign_in mods opts db st subject prof acct sp jp)) = Inl e"
  using assms sign_user_in_fault[of t u a e mods opts db st prof acct jp]
  by (cases rule: authorize_and_sign_in_cases[of mods opts db st subject prof acct sp jp])
     auto


subsection \<open>Facts about the credentials flow\<close>

lemma credentials_try_kinds:
  "kinds (fst (credentials_try mods opts prov req db))
     \<subseteq> {K_log, K_authorize, K_signIn, K_claims, K_encode, K_cookie, K_dispatch}"
  by (cases rule: credentials_try_cases[of opts mods prov req db])
     (auto dest: dispatchEvent_kindD)

lemma credentials_try_db: "fst (snd (credentials_try mods opts prov req db)) = db"
  by (cases rule: credentials_try_cases[of opts mods prov req db]) auto

lemma credentials_try_denied:
  assumes "Call_signIn u a p (Inr (JBool False))
             \<in> set (fst (credentials_try mods opts prov req db))"
  shows "snd (snd (credentials_try mods opts prov req db))
           = Inr (Redirect (error_page opts ''AccessDenied''))
         \<and> kinds (fst (credentials_try mods opts prov req db)) = {K_authorize, K_signIn}"
  using assms
  by (cases rule: credentials_try_cases[of opts mods prov req db])
     (auto dest!: in_set_kind dest: dispatchEvent_kindD)


lemma credentials_try_dispatch:
  assumes "Dispatch_signIn msg \<in> set (fst (credentials_try mods opts prov req db))"
  shows "snd (snd (credentials_try mods opts prov req db))
           = Inr (Redirect (JString (js_or (callbackUrl opts) (baseUrl opts))))
         \<and> msg_isNewUser msg = None"
  using assms
  by (cases rule: credentials_try_cases[of opts mods prov req db])
     (auto simp: dispatchEvent_def dest!: in_set_kind split: option.splits)


section \<open>The verification token is used once\<close>

lemma email_flow_no_token:
  assumes "adapter opts = Some ad" and "getAdapter ad = None"
    and "getVerificationRequest ad db (req_query_email req) (req_query_token req)
           (secret opts) prov = Inr None"
  shows "outcome (email_flow mods opts prov req db st)
           = Redirect (error_page opts ''Verification'')"
  using assms by (simp add: email_flow_def email_try_def Let_def)

text \<open>
  Claim C1 (email flow, single use of the verification token). Whenever
  \<^verbatim>\<open>getVerificationRequest\<close> returns a matching verification request, the handler calls
  \<^verbatim>\<open>deleteVerificationRequest\<close> on the same (email, token) pair next: the calls of the
  invocation begin with \<^verbatim>\<open>getAdapter\<close>, \<^verbatim>\<open>getVerificationRequest\<close>,
  \<^verbatim>\<open>deleteVerificationRequest\<close>, so the deletion comes before the user lookup, the
  sign-in decision, the materialization and the session. The pair is the one of the request.
  When the deletion succeeded and the adapter keeps its contract (a deleted request is not
  found again, and the materialization does not bring it back), the replay of the same
  request on the store the invocation left ends with the \<^verbatim>\<open>Verification\<close> error.
\<close>

theorem verification_token_single_use:
  assumes "providers opts (providerName opts) = Some prov"
    and "p_type prov = ''email''"
    and "Call_getVerificationRequest email tok (Inr (Some invite))
           \<in> set (effects (callback mods opts req db))"
  shows "(\<exists>deleted rest.
            effects (callback mods opts req db)
              = [Call_getAdapter None,
                 Call_getVerificationRequest email tok (Inr (Some invite)),
                 Call_deleteVerificationRequest email tok deleted] @ rest)
         \<and> email = req_query_email req \<and> tok = req_query_token req
         \<and> (\<forall>ad. adapter opts = Some ad
              \<and> Call_deleteVerificationRequest email tok None
                  \<in> set (effects (callback mods opts req db))
              \<and> (\<forall>d d'. deleteVerificationRequest ad d email tok (secret opts) prov = (None, d')
                     \<longrightarrow> getVerificationRequest ad d' email tok (secret opts) prov = Inr None)
              \<and> (\<forall>d st u a.
                     getVerificationRequest ad d email tok (secret opts) prov = Inr None
                     \<longrightarrow> getVerificationRequest ad (snd (callbackHandler mods d st u a opts))
                           email tok (secret opts) prov = Inr None)
              \<longrightarrow> outcome (callback mods opts req (db_after (callback mods opts req db)))
                    = Redirect (error_page opts ''Verification''))"
proof -
  obtain st where c: "callback mods opts req db = email_flow mods opts prov req db st"
    using callback_email[OF assms(1,2)] by blast
  have c2: "\<exists>st. callback mods opts req d = email_flow mods opts prov req d st" for d
    using callback_email[OF assms(1,2)] by blast
  have ev: "Call_getVerificationRequest email tok (Inr (Some invite))
              \<in> set (effects (email_flow mods opts prov req db st))"
    using assms(3) c by simp
  show ?thesis
  proof (cases rule: email_try_cases[of mods opts prov req db st])
    case no_adapter
    with ev show ?thesis by (simp add: email_flow_def)
  next
    case (adapter_fault e)
    with ev email_catch_kinds[of opts e] show ?thesis
      by (auto simp: email_flow_def dest!: in_set_kind)
  next
    case (lookup_fault e)
    with ev email_catch_kinds[of opts e] show ?thesis
      by (auto simp: email_flow_def dest!: in_set_kind)
  next
    case (no_token ad)
    with ev show ?thesis by (simp add: email_flow_def)
  next
    case (delete_fault ad found e db1)
    with ev email_catch_kinds[of opts e] show ?thesis
      by (auto simp: email_flow_def c dest!: in_set_kind)
  next
    case (user_fault ad found e db1)
    have eq: "email = req_query_email req \<and> tok = req_query_token req \<and> invite = found"
      using ev user_fault(4) email_catch_kinds[of opts e]
      by (auto simp: email_flow_def dest!: in_set_kind)
    have "outcome (callback mods opts req db1) = Redirect (error_page opts ''Verification'')"
      if "\<forall>d d'. deleteVerificationRequest ad d email tok (secret opts) prov = (None, d')
                     \<longrightarrow> getVerificationRequest ad d' email tok (secret opts) prov = Inr None"
    proof -
      have "getVerificationRequest ad db1 (req_query_email req) (req_query_token req)
              (secret opts) prov = Inr None"
        using that user_fault(3) eq by blast
      from email_flow_no_token[OF user_fault(1,2) this] c2[of db1] show ?thesis by auto
    qed
    then show ?thesis
      using eq user_fault by (auto simp: c email_flow_def)
  next
    case (verified ad found db1 existing profile acct)
    let ?A = "authorize_and_sign_in mods opts db1 st profile profile acct
                (EmailOnly (req_query_email req)) (UserObject profile)"
    have k: "K_adapter \<notin> kinds (fst ?A)"
      using asi_kinds[of mods opts db1 st profile profile acct] by auto
    have k': "K_adapter \<notin> kinds (fst (email_catch opts e))" for e
      using email_catch_kinds[of opts e] by auto
    have eq: "email = req_query_email req \<and> tok = req_query_token req \<and> invite = found"
      using ev verified(4) k k'
      by (auto simp: email_flow_def dest!: in_set_kind split: sum.splits)
    have dbs: "db_after (callback mods opts req db) = db1
               \<or> db_after (callback mods opts req db)
                  = snd (callbackHandler mods db1 st profile acct opts)"
      using asi_db[of mods opts db1 st profile profile acct
              "EmailOnly (req_query_email req)" "UserObject profile"]
      by (simp add: c email_flow_def verified(4))
    have "outcome (callback mods opts req (db_after (callback mods opts req db)))
            = Redirect (error_page opts ''Verification'')"
      if h1: "\<forall>d d'. deleteVerificationRequest ad d email tok (secret opts) prov = (None, d')
                     \<longrightarrow> getVerificationRequest ad d' email tok (secret opts) prov = Inr None"
        and h2: "\<forall>d st u a.
                     getVerificationRequest ad d email tok (secret opts) prov = Inr None
                     \<longrightarrow> getVerificationRequest ad (snd (callbackHandler mods d st u a opts))
                           email tok (secret opts) prov = Inr None"
    proof -
      have g1: "getVerificationRequest ad db1 email tok (secret opts) prov = Inr None"
        using h1 verified(3) eq by blast
      have "getVerificationRequest ad (db_after (callback mods opts req db)) email tok
              (secret opts) prov = Inr None"
        using dbs g1 h2 by metis
      then have "getVerificationRequest ad (db_after (callback mods opts req db))
              (req_query_email req) (req_query_token req) (secret opts) prov = Inr None"
        using eq by simp
      from email_flow_no_token[OF verified(1,2) this]
        c2[of "db_after (callback mods opts req db)"]
      show ?thesis by auto
    qed
    moreover have "\<exists>deleted rest.
            effects (callback mods opts req db)
              = [Call_getAdapter None,
                 Call_getVerificationRequest email tok (Inr (Some invite)),
                 Call_deleteVerificationRequest email tok deleted] @ rest"
      using eq by (simp add: c email_flow_def verified(4))
    ultimately show ?thesis
      using eq verified(1) by auto
  qed
qed

text \<open>
  The sample email request: the token is deleted right after it is found, the store is left
  empty, and the replay ends with the Verification error.
\<close>

theorem verification_token_single_use_witness:
  "take 3 (effects (callback demo_modules (demo_options ''email'') demo_request demo_db))
     = [Call_getAdapter None,
        Call_getVerificationRequest (Some ''alice@example.com'') (Some ''tok123'')
          (Inr (Some ''invite'')),
        Call_deleteVerificationRequest (Some ''alice@example.com'') (Some ''tok123'') None]
   \<and> db_after (callback demo_modules (demo_options ''email'') demo_request demo_db) = []
   \<and> outcome (callback demo_modules (demo_options ''email'') demo_request
               (db_after (callback demo_modules (demo_options ''email'') demo_request demo_db)))
       = Redirect (JString ''https://example.com/api/auth/error?error=Verification'')"
  using verification_token_single_use[of "demo_options ''email''"
          "\<lparr>p_id = ''email'', p_type = ''email'', p_authorize = None\<rparr>"
          "Some ''alice@example.com''" "Some ''tok123''" "''invite''"
          demo_modules demo_request demo_db]
  by (simp add: flow_defs demo_defs Let_def)

section \<open>The redirect of a successful sign-in\<close>




section \<open>A denied sign-in\<close>

text \<open>
  Claim C3 (all provider types). When \<^verbatim>\<open>callbacks.signIn\<close> returns \<^verbatim>\<open>false\<close>, the
  invocation ends with a redirect to the error page with the code \<^verbatim>\<open>AccessDenied\<close>, and
  it makes no call that sets the session cookie, none that encodes a token and none to the
  materialization handler.
\<close>

theorem signIn_false_access_denied:
  assumes "Call_signIn u a p (Inr (JBool False)) \<in> set (effects (callback mods opts req db))"
  shows "outcome (callback mods opts req db) = Redirect (error_page opts ''AccessDenied'')
         \<and> K_cookie \<notin> kinds (effects (callback mods opts req db))
         \<and> K_encode \<notin> kinds (effects (callback mods opts req db))
         \<and> K_materialize \<notin> kinds (effects (callback mods opts req db))"
proof (cases rule: callback_cases[of mods opts req db])
  case quiet
  with in_set_kind[OF assms] show ?thesis by auto
next
  case (gated pre db0 st subject profile acct sp jp handler)
  let ?A = "authorize_and_sign_in mods opts db0 st subject profile acct sp jp"
  have "Call_signIn u a p (Inr (JBool False)) \<in> set (fst ?A)"
    by (rule gated_member[where pre = pre and handler = handler])
       (use gated assms in simp_all)
  from asi_denied[OF this] gated(1) show ?thesis
    by (auto simp: gated(3))
next
  case (credentials prov)
  have "Call_signIn u a p (Inr (JBool False)) \<in> set (fst (credentials_try mods opts prov req db))"
    using assms by (auto simp: credentials credentials_flow_def split: sum.splits)
  from credentials_try_denied[OF this] show ?thesis
    by (auto simp: credentials credentials_flow_def)
qed

text \<open>A policy that answers false, with each of the three providers.\<close>

theorem signIn_false_access_denied_witness:
  "Call_signIn alice demo_oauth_account (RawOAuthProfile ''{}'') (Inr (JBool False))
     \<in> set (effects (callback demo_modules (demo_with_policy (Inr (JBool False)) ''github'')
                         demo_request demo_db))
   \<and> outcome (callback demo_modules (demo_with_policy (Inr (JBool False)) ''github'')
              demo_request demo_db)
     = Redirect (JString ''https://example.com/api/auth/error?error=AccessDenied'')
   \<and> outcome (callback demo_modules (demo_with_policy (Inr (JBool False)) ''email'')
              demo_request demo_db)
     = Redirect (JString ''https://example.com/api/auth/error?error=AccessDenied'')
   \<and> outcome (callback demo_modules (demo_with_policy (Inr (JBool False)) ''login'')
              demo_request demo_db)
     = Redirect (JString ''https://example.com/api/auth/error?error=AccessDenied'')
   \<and> K_cookie \<notin> kinds (effects (callback demo_modules
                                    (demo_with_policy (Inr (JBool False)) ''login'')
                                    demo_request demo_db))"
  using signIn_false_access_denied[of alice demo_oauth_account "RawOAuthProfile ''{}''"
          demo_modules "demo_with_policy (Inr (JBool False)) ''github''" demo_request demo_db]
    signIn_false_access_denied[of demo_email_profile demo_email_account
          "EmailOnly (Some ''alice@example.com'')"
          demo_modules "demo_with_policy (Inr (JBool False)) ''email''" demo_request demo_db]
    signIn_false_access_denied[of alice demo_login_account "Credentials ''alice:secret''"
          demo_modules "demo_with_policy (Inr (JBool False)) ''login''" demo_request demo_db]
  by (simp add: flow_defs demo_defs Let_def)

section \<open>Credentials need stateless sessions\<close>

text \<open>
  Claim C4. A POST request to a credentials provider under persisted sessions
  (\<^verbatim>\<open>session.jwt\<close> disabled) ends with a redirect to the error page with the code
  \<^verbatim>\<open>Configuration\<close>, and \<^verbatim>\<open>provider.authorize\<close> is not called.
\<close>

theorem credentials_requires_jwt_session:
  assumes "providers opts (providerName opts) = Some prov"
    and "p_type prov = ''credentials''" and "req_method req = ''POST''"
    and "\<not> session_jwt opts"
  shows "outcome (callback mods opts req db) = Redirect (error_page opts ''Configuration'')
         \<and> K_authorize \<notin> kinds (effects (callback mods opts req db))"
  using assms by (simp add: callback_def credentials_flow_def credentials_try_def)

text \<open>The sample credentials request under persisted sessions.\<close>

theorem credentials_requires_jwt_session_witness:
  "outcome (callback demo_modules ((demo_options ''login'')\<lparr>session_jwt := False\<rparr>)
              demo_request demo_db)
     = Redirect (JString ''https://example.com/api/auth/error?error=Configuration'')
   \<and> K_authorize \<notin> kinds (effects (callback demo_modules
                                       ((demo_options ''login'')\<lparr>session_jwt := False\<rparr>)
                                       demo_request demo_db))"
  using credentials_requires_jwt_session[of "(demo_options ''login'')\<lparr>session_jwt := False\<rparr>"
          "the (demo_providers ''login'')" demo_request demo_modules demo_db]
  by (simp add: flow_defs demo_defs Let_def)

section \<open>A fault of the sign-in policy\<close>









section \<open>Faults of the materialization\<close>

lemma materialize_fault_oauth:
  assumes "providers opts (providerName opts) = Some prov" and "p_type prov = ''oauth''"
    and "Call_callbackHandler t u a (Inl e) \<in> set (effects (callback mods opts req db))"
  shows "outcome (callback mods opts req db) = snd (oauth_catch opts e)"
proof -
  obtain st where c: "callback mods opts req db = oauth_flow mods opts prov req db st"
    using assms(1,2) by (simp add: callback_def)
  show ?thesis
  proof (cases rule: oauth_flow_cases[of mods opts prov req db st])
    case early
    with in_set_kind[OF assms(3)] c show ?thesis by auto
  next
    case (gated pre subject profile acct raw)
    let ?A = "authorize_and_sign_in mods opts db st subject profile acct
                (RawOAuthProfile raw) (RawOAuthProfile raw)"
    have "Call_callbackHandler t u a (Inl e) \<in> set (fst ?A)"
      by (rule gated_member[where pre = pre and handler = "oauth_catch opts"])
         (use gated assms(3) c oauth_catch_kinds in simp_all)
    from asi_materialize_fault[OF this] show ?thesis
      by (simp add: c gated(2))
  qed
qed

lemma materialize_fault_email:
  assumes "providers opts (providerName opts) = Some prov" and "p_type prov = ''email''"
    and "Call_callbackHandler t u a (Inl e) \<in> set (effects (callback mods opts req db))"
  shows "outcome (callback mods opts req db) = snd (email_catch opts e)"
proof -
  obtain st where c: "callback mods opts req db = email_flow mods opts prov req db st"
    using callback_email[OF assms(1,2)] by blast
  show ?thesis
  proof (cases rule: email_flow_cases[of mods opts prov req db st])
    case early
    with in_set_kind[OF assms(3)] c show ?thesis by auto
  next
    case (gated pre db1 profile acct sp jp)
    let ?A = "authorize_and_sign_in mods opts db1 st profile profile acct sp jp"
    have "Call_callbackHandler t u a (Inl e) \<in> set (fst ?A)"
      by (rule gated_member[where pre = pre and handler = "email_catch opts"])
         (use gated assms(3) c email_catch_kinds in auto)
    from asi_materialize_fault[OF this] show ?thesis
      by (simp add: c gated(2))
  qed
qed

lemma error_page_inject: "error_page opts c = error_page opts c' \<longleftrightarrow> c = c'"
  by (simp add: error_page_def)

text \<open>
  Claim C6, as the code has it. A materialization that fails with
  \<^verbatim>\<open>AccountNotLinkedError\<close> ends the oauth flow with the code
  \<^verbatim>\<open>OAuthAccountNotLinked\<close>, and one that fails with \<^verbatim>\<open>CreateUserError\<close> ends it with
  \<^verbatim>\<open>OAuthCreateAccount\<close>. In the email flow \<^verbatim>\<open>CreateUserError\<close> gives
  \<^verbatim>\<open>EmailCreateAccount\<close>, and \<^verbatim>\<open>AccountNotLinkedError\<close>, which has no branch of its own
  there, gives the generic \<^verbatim>\<open>Callback\<close> code. In each flow the two kinds end with
  different codes.
\<close>

theorem materialize_fault_codes:
  assumes "providers opts (providerName opts) = Some prov"
    and "Call_callbackHandler t u a (Inl e) \<in> set (effects (callback mods opts req db))"
  shows "(p_type prov = ''oauth'' \<and> error_name e = Inr (Some ''AccountNotLinkedError'')
            \<longrightarrow> outcome (callback mods opts req db)
                  = Redirect (error_page opts ''OAuthAccountNotLinked''))
         \<and> (p_type prov = ''oauth'' \<and> error_name e = Inr (Some ''CreateUserError'')
            \<longrightarrow> outcome (callback mods opts req db)
                  = Redirect (error_page opts ''OAuthCreateAccount''))
         \<and> (p_type prov = ''email'' \<and> error_name e = Inr (Some ''CreateUserError'')
            \<longrightarrow> outcome (callback mods opts req db)
                  = Redirect (error_page opts ''EmailCreateAccount''))
         \<and> (p_type prov = ''email'' \<and> error_name e = Inr (Some ''AccountNotLinkedError'')
            \<longrightarrow> outcome (callback mods opts req db)
                  = Redirect (error_page opts ''Callback''))
         \<and> error_page opts ''OAuthAccountNotLinked'' \<noteq> error_page opts ''OAuthCreateAccount''
         \<and> error_page opts ''Callback'' \<noteq> error_page opts ''EmailCreateAccount''"
  using materialize_fault_oauth[OF assms(1) _ assms(2)]
    materialize_fault_email[OF assms(1) _ assms(2)]
  by (auto simp: oauth_catch_def email_catch_def error_page_inject)

text \<open>
  A materialization that fails, with both kinds in the oauth flow and with the creation
  failure in the email flow.
\<close>

theorem materialize_fault_codes_witness:
  "Call_callbackHandler None alice demo_oauth_account
       (Inl (ErrorObj ''AccountNotLinkedError'' ''taken''))
     \<in> set (effects (callback
                (demo_failing_materializer (ErrorObj ''AccountNotLinkedError'' ''taken''))
                (demo_options ''github'') demo_request demo_db))
   \<and> outcome (callback (demo_failing_materializer (ErrorObj ''AccountNotLinkedError'' ''taken''))
              (demo_options ''github'') demo_request demo_db)
     = Redirect (JString ''https://example.com/api/auth/error?error=OAuthAccountNotLinked'')
   \<and> outcome (callback (demo_failing_materializer (ErrorObj ''CreateUserError'' ''duplicate''))
              (demo_options ''github'') demo_request demo_db)
     = Redirect (JString ''https://example.com/api/auth/error?error=OAuthCreateAccount'')
   \<and> outcome (callback (demo_failing_materializer (ErrorObj ''CreateUserError'' ''duplicate''))
              (demo_options ''email'') demo_request demo_db)
     = Redirect (JString ''https://example.com/api/auth/error?error=EmailCreateAccount'')"
  using materialize_fault_codes[of "demo_options ''github''" "the (demo_providers ''github'')"
          None alice demo_oauth_account "ErrorObj ''AccountNotLinkedError'' ''taken''"
          "demo_failing_materializer (ErrorObj ''AccountNotLinkedError'' ''taken'')"
          demo_request demo_db]
    materialize_fault_codes[of "demo_options ''github''" "the (demo_providers ''github'')"
          None alice demo_oauth_account "ErrorObj ''CreateUserError'' ''duplicate''"
          "demo_failing_materializer (ErrorObj ''CreateUserError'' ''duplicate'')"
          demo_request demo_db]
    materialize_fault_codes[of "demo_options ''email''" "the (demo_providers ''email'')"
          None demo_email_profile demo_email_account "ErrorObj ''CreateUserError'' ''duplicate''"
          "demo_failing_materializer (ErrorObj ''CreateUserError'' ''duplicate'')"
          demo_request demo_db]
  by (simp add: flow_defs demo_defs Let_def)

text \<open>
  The email flow with a materialization that fails with AccountNotLinkedError: the handler is
  called, fails, and the redirect carries the code Callback, not OAuthAccountNotLinked.
\<close>

theorem email_account_not_linked_counterexample:
  "Call_callbackHandler None demo_email_profile demo_email_account
       (Inl (ErrorObj ''AccountNotLinkedError'' ''taken''))
     \<in> set (effects (callback
                (demo_failing_materializer (ErrorObj ''AccountNotLinkedError'' ''taken''))
                (demo_options ''email'') demo_request demo_db))
   \<and> outcome (callback
                (demo_failing_materializer (ErrorObj ''AccountNotLinkedError'' ''taken''))
                (demo_options ''email'') demo_request demo_db)
     = Redirect (JString ''https://example.com/api/auth/error?error=Callback'')
   \<and> outcome (callback
                (demo_failing_materializer (ErrorObj ''AccountNotLinkedError'' ''taken''))
                (demo_options ''email'') demo_request demo_db)
     \<noteq> Redirect (JString ''https://example.com/api/auth/error?error=OAuthAccountNotLinked'')"
  by (simp add: flow_defs demo_defs Let_def)

section \<open>The handler of the sign-in event does not reach the outcome\<close>

lemma events_error_page: "error_page (opts\<lparr>events_signIn := h\<rparr>) c = error_page opts c"
  by (simp add: error_page_def)

lemma events_fault_redirect:
  "fault_redirect (opts\<lparr>events_signIn := h\<rparr>) e = fault_redirect opts e"
  by (cases e) (simp_all add: events_error_page split: sum.splits)

lemma events_catch:
  "oauth_catch (opts\<lparr>events_signIn := h\<rparr>) = oauth_catch opts"
  "email_catch (opts\<lparr>events_signIn := h\<rparr>) = email_catch opts"
  by (auto simp: oauth_catch_def email_catch_def events_error_page fun_eq_iff
        split: sum.splits)

lemma events_user_or_profile:
  "user_or_profile (opts\<lparr>events_signIn := h\<rparr>) db prof acct = user_or_profile opts db prof acct"
  by (simp add: user_or_profile_def)

lemma events_sign_user_in:
  assumes "\<forall>d st u a. callbackHandler mods d st u a (opts\<lparr>events_signIn := h\<rparr>)
                        = callbackHandler mods d st u a opts"
  shows "snd (sign_user_in mods (opts\<lparr>events_signIn := h\<rparr>) db st prof acct pl)
           = snd (sign_user_in mods opts db st prof acct pl)"
  using assms
  by (simp add: sign_user_in_def session_stage_events
        split: prod.splits sum.splits option.splits)

lemma events_asi:
  assumes "\<forall>d st u a. callbackHandler mods d st u a (opts\<lparr>events_signIn := h\<rparr>)
                        = callbackHandler mods d st u a opts"
  shows "snd (authorize_and_sign_in mods (opts\<lparr>events_signIn := h\<rparr>) db st subject prof acct
                sp jp)
           = snd (authorize_and_sign_in mods opts db st subject prof acct sp jp)"
  using events_sign_user_in[OF assms]
  by (simp add: authorize_and_sign_in_def events_fault_redirect events_error_page
        split: sum.splits)

lemma events_oauth_try:
  assumes "\<forall>d st u a. callbackHandler mods d st u a (opts\<lparr>events_signIn := h\<rparr>)
                        = callbackHandler mods d st u a opts"
  shows "snd (oauth_try mods (opts\<lparr>events_signIn := h\<rparr>) db st resp)
           = snd (oauth_try mods opts db st resp)"
proof -
  have s: "snd (oauth_try mods o' db st resp)
             = (case resp of
                  OAuthError \<Rightarrow>
                    (db, Inr (Redirect (JString (baseUrl o' @ basePath o'
                                                   @ ''/error?error=oAuthCallback''))))
                | OAuthNoProfile \<Rightarrow>
                    (db, Inr (Redirect (JString (baseUrl o' @ basePath o' @ ''/signin''))))
                | OAuthProfile profile acct raw \<Rightarrow>
                    (case snd (user_or_profile o' db profile acct) of
                       Inl e \<Rightarrow> (db, Inl e)
                     | Inr subject \<Rightarrow>
                         snd (authorize_and_sign_in mods o' db st subject profile acct
                                (RawOAuthProfile raw) (RawOAuthProfile raw))))"
    for o' :: "'a options"
    by (simp add: oauth_try_def split: oauth_response.splits prod.splits sum.splits)
  show ?thesis
    by (simp add: s events_asi[OF assms] events_user_or_profile
          split: oauth_response.splits sum.splits)
qed

lemma events_email_try:
  assumes "\<forall>d st u a. callbackHandler mods d st u a (opts\<lparr>events_signIn := h\<rparr>)
                        = callbackHandler mods d st u a opts"
  shows "snd (email_try mods (opts\<lparr>events_signIn := h\<rparr>) prov req db st)
           = snd (email_try mods opts prov req db st)"
  using events_asi[OF assms]
  by (simp add: email_try_def events_error_page Let_def
        split: option.splits sum.splits prod.splits)

lemma events_credentials_try:
  "snd (credentials_try mods (opts\<lparr>events_signIn := h\<rparr>) prov req db)
     = snd (credentials_try mods opts prov req db)"
  by (simp add: credentials_try_def events_error_page events_fault_redirect
        session_stage_events Let_def split: option.splits sum.splits prod.splits)

text \<open>
  Claim C7. The terminal action and the store of an invocation do not depend on what the
  handler of the sign-in event does: with any handler \<open>h\<close> in place of the configured one, a
  failing one in particular, the outcome is the same. The materialization is given the
  options, so it is assumed not to look at the event handler.
\<close>

theorem dispatch_failure_keeps_outcome:
  assumes "\<forall>d st u a. callbackHandler mods d st u a (opts\<lparr>events_signIn := h\<rparr>)
                        = callbackHandler mods d st u a opts"
  shows "outcome (callback mods (opts\<lparr>events_signIn := h\<rparr>) req db)
           = outcome (callback mods opts req db)
         \<and> db_after (callback mods (opts\<lparr>events_signIn := h\<rparr>) req db)
           = db_after (callback mods opts req db)"
  using events_oauth_try[OF assms] events_email_try[OF assms]
    events_credentials_try[where mods = mods and opts = opts and h = h]
  by (simp add: callback_def oauth_flow_def email_flow_def credentials_flow_def events_catch
        events_error_page Let_def split: option.splits sum.splits)

text \<open>
  The sample email request with a failing event handler: the failure is logged and the outcome
  is that of the run with the handler that succeeds.
\<close>

theorem dispatch_failure_keeps_outcome_witness:
  "outcome (callback demo_modules
              ((demo_options ''email'')
                 \<lparr>events_signIn := (\<lambda>m. Some (ErrorObj ''Error'' ''audit log down''))\<rparr>)
              demo_request demo_db)
     = outcome (callback demo_modules (demo_options ''email'') demo_request demo_db)
   \<and> LogError ''DISPATCH_EVENT_ERROR''
       \<in> set (effects (callback demo_modules
              ((demo_options ''email'')
                 \<lparr>events_signIn := (\<lambda>m. Some (ErrorObj ''Error'' ''audit log down''))\<rparr>)
              demo_request demo_db))"
  using dispatch_failure_keeps_outcome[where mods = demo_modules
          and opts = "demo_options ''email''"
          and h = "\<lambda>m. Some (ErrorObj ''Error'' ''audit log down'')"
          and req = demo_request and db = demo_db]
  by (simp add: flow_defs demo_defs Let_def)

section \<open>A verification token that is not found\<close>

text \<open>
  Claim C8 (email flow). When \<^verbatim>\<open>getVerificationRequest\<close> returns nothing for the
  (email, token) pair, the invocation ends with a redirect to the error page with the code
  \<^verbatim>\<open>Verification\<close>; no session cookie is set, no sign-in event is dispatched, the
  materialization is not called and the store is unchanged.
\<close>

theorem email_token_not_found:
  assumes "providers opts (providerName opts) = Some prov"
    and "p_type prov = ''email''"
    and "Call_getVerificationRequest email tok (Inr None)
           \<in> set (effects (callback mods opts req db))"
  shows "outcome (callback mods opts req db) = Redirect (error_page opts ''Verification'')
         \<and> K_cookie \<notin> kinds (effects (callback mods opts req db))
         \<and> K_dispatch \<notin> kinds (effects (callback mods opts req db))
         \<and> K_materialize \<notin> kinds (effects (callback mods opts req db))
         \<and> db_after (callback mods opts req db) = db"
proof -
  obtain st where c: "callback mods opts req db = email_flow mods opts prov req db st"
    using callback_email[OF assms(1,2)] by blast
  have ev: "Call_getVerificationRequest email tok (Inr None)
              \<in> set (effects (email_flow mods opts prov req db st))"
    using assms(3) c by simp
  show ?thesis
  proof (cases rule: email_try_cases[of mods opts prov req db st])
    case no_adapter
    with ev show ?thesis by (simp add: email_flow_def)
  next
    case (adapter_fault e)
    with ev email_catch_kinds[of opts e] show ?thesis
      by (auto simp: email_flow_def dest!: in_set_kind)
  next
    case (lookup_fault e)
    with ev email_catch_kinds[of opts e] show ?thesis
      by (auto simp: email_flow_def dest!: in_set_kind)
  next
    case (no_token ad)
    then show ?thesis by (simp add: c email_flow_def)
  next
    case (delete_fault ad found e db1)
    with ev email_catch_kinds[of opts e] show ?thesis
      by (auto simp: email_flow_def dest!: in_set_kind)
  next
    case (user_fault ad found e db1)
    with ev email_catch_kinds[of opts e] show ?thesis
      by (auto simp: email_flow_def dest!: in_set_kind)
  next
    case (verified ad found db1 existing profile acct)
    let ?A = "authorize_and_sign_in mods opts db1 st profile profile acct
                (EmailOnly (req_query_email req)) (UserObject profile)"
    have k: "K_adapter \<notin> kinds (fst ?A)"
      using asi_kinds[of mods opts db1 st profile profile acct] by auto
    have k': "K_adapter \<notin> kinds (fst (email_catch opts e))" for e
      using email_catch_kinds[of opts e] by auto
    from ev verified(4) k k' show ?thesis
      by (auto simp: email_flow_def dest!: in_set_kind split: sum.splits)
  qed
qed

text \<open>The sample email request on an empty store.\<close>

theorem email_token_not_found_witness:
  "outcome (callback demo_modules (demo_options ''email'') demo_request [])
     = Redirect (JString ''https://example.com/api/auth/error?error=Verification'')
   \<and> effects (callback demo_modules (demo_options ''email'') demo_request [])
     = [Call_getAdapter None,
        Call_getVerificationRequest (Some ''alice@example.com'') (Some ''tok123'') (Inr None)]"
  using email_token_not_found[of "demo_options ''email''" "the (demo_providers ''email'')"
          "Some ''alice@example.com''" "Some ''tok123''" demo_modules demo_request "[]"]
  by (simp add: flow_defs demo_defs Let_def)

section \<open>Unsupported providers\<close>

text \<open>
  Claim C9. For a provider whose type is not \<^verbatim>\<open>oauth\<close>, not \<^verbatim>\<open>email\<close> and not
  \<^verbatim>\<open>credentials\<close> with the method POST (so also for a credentials provider asked with
  another method), the invocation ends with the direct rejection of status 500, not with a
  redirect, and it makes no call at all: no cookie is set.
\<close>

theorem unsupported_provider_rejected:
  assumes "providers opts (providerName opts) = Some prov"
    and "p_type prov \<noteq> ''oauth''" and "p_type prov \<noteq> ''email''"
    and "\<not> (p_type prov = ''credentials'' \<and> req_method req = ''POST'')"
  shows "outcome (callback mods opts req db)
           = Rejected 500
               (''Error: Callback for provider type '' @ p_type prov @ '' not supported'')
         \<and> effects (callback mods opts req db) = []
         \<and> db_after (callback mods opts req db) = db"
  using assms by (auto simp: callback_def)

text \<open>
  A provider of an unsupported type, and the credentials provider asked with GET.
\<close>

theorem unsupported_provider_rejected_witness:
  "outcome (callback demo_modules (demo_options ''saml'') demo_request demo_db)
     = Rejected 500 ''Error: Callback for provider type saml not supported''
   \<and> outcome (callback demo_modules (demo_options ''login'')
                (demo_request\<lparr>req_method := ''GET''\<rparr>) demo_db)
     = Rejected 500 ''Error: Callback for provider type credentials not supported''
   \<and> effects (callback demo_modules (demo_options ''login'')
                (demo_request\<lparr>req_method := ''GET''\<rparr>) demo_db) = []"
  using unsupported_provider_rejected[of "demo_options ''saml''" "the (demo_providers ''saml'')"
          demo_request demo_modules demo_db]
    unsupported_provider_rejected[of "demo_options ''login''" "the (demo_providers ''login'')"
          "demo_request\<lparr>req_method := ''GET''\<rparr>" demo_modules demo_db]
  by (simp add: flow_defs demo_defs Let_def)

section \<open>The credentials flow leaves the store alone\<close>

text \<open>
  Claim C10 (credentials flow). The flow makes no call to the persistence adapter and none
  to the materialization handler, and it leaves the store as it found it; every call of
  \<^verbatim>\<open>callbacks.jwt\<close> it makes has \<^verbatim>\<open>isNewUser = false\<close>, and the message of every
  sign-in event it dispatches has no \<^verbatim>\<open>isNewUser\<close> field.
\<close>

theorem credentials_flow_frame:
  assumes "providers opts (providerName opts) = Some prov"
    and "p_type prov = ''credentials''" and "req_method req = ''POST''"
  shows "K_adapter \<notin> kinds (effects (callback mods opts req db))
         \<and> K_materialize \<notin> kinds (effects (callback mods opts req db))
         \<and> db_after (callback mods opts req db) = db
         \<and> (\<forall>d u a p n r. Call_jwt d u a p n r \<in> set (effects (callback mods opts req db))
               \<longrightarrow> n = False)
         \<and> (\<forall>msg. Dispatch_signIn msg \<in> set (effects (callback mods opts req db))
               \<longrightarrow> msg_isNewUser msg = None)"
proof -
  have c: "callback mods opts req db = credentials_flow mods opts prov req db"
    using assms by (simp add: callback_def)
  have e: "effects (callback mods opts req db) = fst (credentials_try mods opts prov req db)"
    by (simp add: c credentials_flow_def split: sum.splits)
  have j: "\<forall>d u a p n r.
             Call_jwt d u a p n r \<in> set (fst (credentials_try mods opts prov req db))
             \<longrightarrow> n = False"
  proof (intro allI impI)
    fix d u a p n r
    assume "Call_jwt d u a p n r \<in> set (fst (credentials_try mods opts prov req db))"
    then show "n = False"
      by (cases rule: credentials_try_cases[of opts mods prov req db])
         (auto simp: dispatchEvent_def dest: jwt_session_isNewUser split: option.splits)
  qed
  have m: "\<forall>msg. Dispatch_signIn msg \<in> set (fst (credentials_try mods opts prov req db))
             \<longrightarrow> msg_isNewUser msg = None"
    using credentials_try_dispatch[of _ mods opts prov req db] by blast
  have k: "K_adapter \<notin> kinds (fst (credentials_try mods opts prov req db))
           \<and> K_materialize \<notin> kinds (fst (credentials_try mods opts prov req db))"
    using credentials_try_kinds[of mods opts prov req db] by auto
  have d: "db_after (callback mods opts req db) = db"
    by (simp add: c credentials_flow_def credentials_try_db)
  show ?thesis
    unfolding e using j m k d by blast
qed

text \<open>The sample credentials request.\<close>

theorem credentials_flow_frame_witness:
  "K_adapter \<notin> kinds (effects (callback demo_modules (demo_options ''login'') demo_request demo_db))
   \<and> K_materialize
       \<notin> kinds (effects (callback demo_modules (demo_options ''login'') demo_request demo_db))
   \<and> db_after (callback demo_modules (demo_options ''login'') demo_request demo_db) = demo_db
   \<and> Dispatch_signIn \<lparr>msg_user = alice, msg_account = demo_login_account, msg_isNewUser = None\<rparr>
       \<in> set (effects (callback demo_modules (demo_options ''login'') demo_request demo_db))"
  using credentials_flow_frame[of "demo_options ''login''" "the (demo_providers ''login'')"
          demo_request demo_modules demo_db]
  by (simp add: flow_defs demo_defs Let_def)

end
